theory Spec2Isabelle
  imports Main "HOL-Library.Sublist"
begin

section \<open>The trace writer of the trace agent\<close>

text \<open>
  The TypeScript class \<^verbatim>\<open>TraceWriter\<close> (the second module in src/src/config.ts) buffers
  stringified traces and publishes them in the background. Its methods mutate the writer
  object, mutate the trace objects the caller hands in, and register callbacks with the
  Node.js event loop (promise reactions, \<^verbatim>\<open>setImmediate\<close>, \<^verbatim>\<open>setTimeout\<close>, the
  callback of \<^verbatim>\<open>request\<close>).
  The embedding is a record \<open>world\<close> that holds the fields of the writer, a store of the
  caller's objects, the pending callbacks and what the collaborators have received (log
  entries, requests, invocations of the callback of \<^verbatim>\<open>initialize\<close>). Every method is
  a function on worlds; every callback the event loop can run is an event of \<open>step\<close>.

  Time is not measured: a timer is pending until the event loop fires it, so the delays
  (\<^verbatim>\<open>flushDelaySeconds\<close>, the two seconds before \<^verbatim>\<open>process.exit\<close>) only appear as
  the order of events. The numbers of the configuration are integers. The callback given
  to \<^verbatim>\<open>initialize\<close> belongs to the caller; the model records its invocations and
  takes it to return normally.
\<close>

subsection \<open>Data model\<close>

type_synonym ref = nat

text \<open>
  Modelled from the spec: the enum \<^verbatim>\<open>SpanKind\<close> is imported from \<^verbatim>\<open>./trace\<close>, which is
  not among the sources. The spec lists RPC_SERVER, RPC_CLIENT and "other"; the test
  file uses \<^verbatim>\<open>SpanKind.RPC_SERVER\<close>.
\<close>

datatype SpanKind = SPAN_KIND_UNSPECIFIED | RPC_SERVER | RPC_CLIENT

text \<open>
  \<^verbatim>\<open>interface LabelObject { [key: string]: string; }\<close>: a JavaScript object used as a
  dictionary. It is an association list in insertion order, which is also the order in
  which \<^verbatim>\<open>JSON.stringify\<close> and \<^verbatim>\<open>Object.assign\<close> enumerate keys that are not
  array indices (label keys are names such as \<^verbatim>\<open>/agent\<close>).
\<close>

type_synonym LabelObject = "(string \<times> string) list"

text \<open>
  The fields of a span and of a trace are the ones of \<^verbatim>\<open>createDummyTrace\<close> in
  test/test-trace-writer.ts. Objects are held by reference: a trace holds the addresses of
  its span objects, a span the address of its label object.
\<close>

record TraceSpan =
  labels :: ref
  startTime :: string
  endTime :: string
  kind :: SpanKind
  name :: string
  spanId :: string

record Trace =
  projectId :: string
  traceId :: string
  spans :: "ref list"

text \<open>\<^verbatim>\<open>interface TraceWriterConfig\<close>. The authentication options it extends play no part.\<close>

record ServiceContext =
  service :: "string option"
  version :: "string option"
  minorVersion :: "string option"

record TraceWriterConfig =
  config_projectId :: "string option"
  onUncaughtException :: string
  bufferSize :: int
  flushDelaySeconds :: int
  stackTraceLimit :: int
  maximumLabelValueSize :: int
  serviceContext :: ServiceContext

text \<open>
  Constants of modules that are not among the sources (\<^verbatim>\<open>./constants\<close>,
  \<^verbatim>\<open>./trace-labels\<close>, \<^verbatim>\<open>package.json\<close>) and the host name of the operating system
  are parameters.
\<close>

record environment =
  TRACE_AGENT_REQUEST_HEADER :: string
  AGENT_DATA :: string
  GCE_HOSTNAME :: string
  GCE_INSTANCE_ID :: string
  GAE_MODULE_NAME :: string
  GAE_MODULE_VERSION :: string
  GAE_VERSION :: string
  pjson_name :: string
  pjson_version :: string
  os_hostname :: string

text \<open>The logger collaborator: a level and the arguments of the call.\<close>

datatype level = Debug | Info | Warn | Error

datatype logarg = Str string | Arr "string list"

type_synonym logentry = "level \<times> logarg list"

text \<open>The argument of \<^verbatim>\<open>this.request\<close>: \<^verbatim>\<open>{method: 'PATCH', uri, body: json, headers}\<close>.\<close>

record request_options =
  http_method :: string
  uri :: string
  body :: string
  headers :: "(string \<times> int) list"

text \<open>
  Pending promise reactions. \<^verbatim>\<open>getProjectId()\<close> returns either
  \<^verbatim>\<open>Promise.resolve(this.projectId)\<close> or the promise of \<^verbatim>\<open>super.getProjectId()\<close>, which
  the credential collaborator settles. The reaction is the pair of handlers given to
  \<^verbatim>\<open>then\<close>: the one of \<^verbatim>\<open>initialize\<close> (with the address of its counter
  \<^verbatim>\<open>pendingOperations\<close>) or the one of \<^verbatim>\<open>queueTrace\<close> (with the trace it closed over).
\<close>

datatype promise_source = PromiseResolve string | SuperGetProjectId

datatype reaction = InitializeThen nat | QueueTraceThen ref

text \<open>
  Pending metadata queries of \<^verbatim>\<open>initialize\<close>: \<^verbatim>\<open>getHostname\<close>, and inside its
  callback \<^verbatim>\<open>getInstanceId\<close>, which closes over the host name.
\<close>

datatype metadata_query = GetHostname nat | GetInstanceId nat string

record world =
  config :: TraceWriterConfig
  env :: environment
  \<comment> \<open>fields of the TraceWriter object\<close>
  buffer :: "string list"
  defaultLabels :: LabelObject
  isActive :: bool
  this_projectId :: string
  unhandledException :: bool
  \<comment> \<open>the caller's objects\<close>
  traceObj :: "ref \<Rightarrow> Trace"
  spanObj :: "ref \<Rightarrow> TraceSpan"
  labelObj :: "ref \<Rightarrow> LabelObject"
  \<comment> \<open>the clock: the strings that successive \<^verbatim>\<open>(new Date()).toISOString()\<close> return\<close>
  clock :: "nat \<Rightarrow> string"
  ticks :: nat
  \<comment> \<open>collaborators\<close>
  logs :: "logentry list"
  requests :: "request_options list"
  inflight :: nat
  cbCalls :: "(nat \<times> string option) list"
  \<comment> \<open>the event loop\<close>
  immediates :: nat
  timers :: nat
  exitTimers :: nat
  exited :: bool
  promises :: "(promise_source \<times> reaction) list"
  metadataQueries :: "metadata_query list"
  pendingOperations :: "nat \<Rightarrow> int"
  nextInit :: nat

subsection \<open>Built-ins of the language\<close>

text \<open>
  Template literals turn numbers into decimal strings (\<^verbatim>\<open>${this.buffer.length}\<close>,
  \<^verbatim>\<open>${statusCode}\<close>, \<^verbatim>\<open>${value}\<close>).
\<close>

definition digit_char :: "nat \<Rightarrow> char" where
  "digit_char n = ''0123456789abcdef'' ! n"

fun show_nat :: "nat \<Rightarrow> string" where
  "show_nat n =
     (if n < 10 then [digit_char n] else show_nat (n div 10) @ [digit_char (n mod 10)])"

declare show_nat.simps [simp del]

definition show_int :: "int \<Rightarrow> string" where
  "show_int i = (if i < 0 then ''-'' @ show_nat (nat (- i)) else show_nat (nat i))"

text \<open>
  \<^verbatim>\<open>Array.prototype.join\<close> on an array of strings, with a separator and with the
  default separator, the comma.
\<close>

fun Array_join_with :: "string \<Rightarrow> string list \<Rightarrow> string" where
  "Array_join_with sep [] = []"
| "Array_join_with sep [x] = x"
| "Array_join_with sep (x # y # ys) = x @ sep @ Array_join_with sep (y # ys)"

definition Array_join :: "string list \<Rightarrow> string" where
  "Array_join xs = Array_join_with '','' xs"

text \<open>
  \<^verbatim>\<open>JSON.stringify\<close> on a trace: strings are quoted, with the quotation mark, the
  backslash and the control characters escaped. JavaScript lists the members of an object
  in the order in which its properties were created, keys that are array indices first.
  The model fixes one such order: for a trace and a span the order of the object literal
  in \<^verbatim>\<open>createDummyTrace\<close>, for labels the insertion order, which is the order of
  JavaScript for keys that are not array indices. An object built in another order is
  serialised by JavaScript with its members in that other order. The theorems below take
  the serialiser as a function of the store and do not depend on the order. The span kind
  is written with the name of the enum member.
\<close>

definition JSON_escape :: "char \<Rightarrow> string" where
  "JSON_escape c =
     (if c = CHR 0x22 then [CHR 0x5C, CHR 0x22]
      else if c = CHR 0x5C then [CHR 0x5C, CHR 0x5C]
      else if c = CHR 0x08 then [CHR 0x5C, CHR ''b'']
      else if c = CHR 0x0C then [CHR 0x5C, CHR ''f'']
      else if c = CHR 0x0A then [CHR 0x5C, CHR ''n'']
      else if c = CHR 0x0D then [CHR 0x5C, CHR ''r'']
      else if c = CHR 0x09 then [CHR 0x5C, CHR ''t'']
      else if (of_char c :: nat) < 32 then
        [CHR 0x5C, CHR ''u'', CHR ''0'', CHR ''0'',
         digit_char (of_char c div 16), digit_char (of_char c mod 16)]
      else [c])"

definition JSON_quote :: "string \<Rightarrow> string" where
  "JSON_quote s = [CHR 0x22] @ concat (map JSON_escape s) @ [CHR 0x22]"

definition JSON_member :: "string \<Rightarrow> string \<Rightarrow> string" where
  "JSON_member k v = JSON_quote k @ '':'' @ v"

definition JSON_object :: "string list \<Rightarrow> string" where
  "JSON_object members = ''{'' @ Array_join members @ ''}''"

definition JSON_array :: "string list \<Rightarrow> string" where
  "JSON_array elements = ''['' @ Array_join elements @ '']''"

definition SpanKind_name :: "SpanKind \<Rightarrow> string" where
  "SpanKind_name k =
     (case k of SPAN_KIND_UNSPECIFIED \<Rightarrow> ''SPAN_KIND_UNSPECIFIED''
      | RPC_SERVER \<Rightarrow> ''RPC_SERVER'' | RPC_CLIENT \<Rightarrow> ''RPC_CLIENT'')"

definition stringify_labels :: "LabelObject \<Rightarrow> string" where
  "stringify_labels l = JSON_object (map (\<lambda>(k, v). JSON_member k (JSON_quote v)) l)"

definition stringify_span :: "world \<Rightarrow> ref \<Rightarrow> string" where
  "stringify_span w s =
     (let sp = spanObj w s in
      JSON_object
        [JSON_member ''labels'' (stringify_labels (labelObj w (labels sp))),
         JSON_member ''startTime'' (JSON_quote (startTime sp)),
         JSON_member ''endTime'' (JSON_quote (endTime sp)),
         JSON_member ''kind'' (JSON_quote (SpanKind_name (kind sp))),
         JSON_member ''name'' (JSON_quote (name sp)),
         JSON_member ''spanId'' (JSON_quote (spanId sp))])"

definition JSON_stringify :: "world \<Rightarrow> ref \<Rightarrow> string" where
  "JSON_stringify w trace =
     (let t = traceObj w trace in
      JSON_object
        [JSON_member ''projectId'' (JSON_quote (projectId t)),
         JSON_member ''traceId'' (JSON_quote (traceId t)),
         JSON_member ''spans'' (JSON_array (map (stringify_span w) (spans t)))])"

text \<open>
  Setting a property of an object: an existing key keeps its place and takes the new
  value, a new key goes last. \<^verbatim>\<open>Object.assign(target, source)\<close> sets on the target every
  property of the source, in the order of the source.
\<close>

fun setProperty :: "string \<Rightarrow> string \<Rightarrow> LabelObject \<Rightarrow> LabelObject" where
  "setProperty k v [] = [(k, v)]"
| "setProperty k v (p # ps) = (if fst p = k then (k, v) # ps else p # setProperty k v ps)"

fun Object_assign :: "LabelObject \<Rightarrow> LabelObject \<Rightarrow> LabelObject" where
  "Object_assign target [] = target"
| "Object_assign target (p # source) = Object_assign (setProperty (fst p) (snd p) target) source"

subsection \<open>The methods of TraceWriter\<close>

definition NO_PROJECT_ID_TOKEN :: string where
  "NO_PROJECT_ID_TOKEN = ''{{projectId}}''"

definition onUncaughtExceptionValues :: "string list" where
  "onUncaughtExceptionValues = [''ignore'', ''flush'', ''flushAndExit'']"

definition logger :: "level \<Rightarrow> logarg list \<Rightarrow> world \<Rightarrow> world" where
  "logger l args w = w\<lparr>logs := logs w @ [(l, args)]\<rparr>"

text \<open>
  \<^verbatim>\<open>publish(json)\<close>: one info entry, one call of \<^verbatim>\<open>this.request\<close>, whose callback
  is then outstanding.
\<close>

definition publish :: "string \<Rightarrow> world \<Rightarrow> world" where
  "publish json w =
     (let u = ''https://cloudtrace.googleapis.com/v1/projects/'' @ this_projectId w @ ''/traces'';
          options = \<lparr>http_method = ''PATCH'', uri = u, body = json,
                     headers = [(TRACE_AGENT_REQUEST_HEADER (env w), 1)]\<rparr>;
          w1 = logger Info [Str (''TraceWriter#publish: Publishing to '' @ u)] w
      in w1\<lparr>requests := requests w1 @ [options], inflight := Suc (inflight w1)\<rparr>)"

text \<open>
  The callback that \<^verbatim>\<open>publish\<close> gives to \<^verbatim>\<open>this.request\<close>. \<open>err\<close> is the error in
  its string form, \<open>response\<close> the status code of the response when there is one;
  \<^verbatim>\<open>(response && response.statusCode) || 'unknown'\<close> takes 0 for absent.
\<close>

definition publish_callback :: "string option \<Rightarrow> int option \<Rightarrow> world \<Rightarrow> world" where
  "publish_callback err response w =
     (let statusCode =
            (case response of
               Some c \<Rightarrow> if c = 0 then ''unknown'' else show_int c
             | None \<Rightarrow> ''unknown'')
      in case err of
           Some e \<Rightarrow>
             logger Error
               [Str (''TraceWriter#publish: Received error status code '' @ statusCode @
                     ''. Original error: '' @ e)] w
         | None \<Rightarrow>
             logger Info
               [Str (''TraceWriter#publish: Published w/ status code: '' @ statusCode)] w)"

definition flushBuffer_payload :: "string list \<Rightarrow> string" where
  "flushBuffer_payload b =
     ''{'' @ [CHR 0x22] @ ''traces'' @ [CHR 0x22] @ '':['' @ Array_join b @ '']}''"

definition flushBuffer :: "world \<Rightarrow> world" where
  "flushBuffer w =
     (if length (buffer w) = 0 then w
      else
        let b = buffer w;
            w1 = w\<lparr>buffer := []\<rparr>;
            w2 = logger Debug [Str ''TraceWriter#flushBuffer: Flushing traces'', Arr b] w1
        in publish (flushBuffer_payload b) w2)"

definition scheduleFlush :: "world \<Rightarrow> world" where
  "scheduleFlush w =
     (let w1 = logger Info [Str ''TraceWriter#scheduleFlush: Performing periodic flush.''] w;
          w2 = flushBuffer w1
      in if isActive w2 then w2\<lparr>timers := Suc (timers w2)\<rparr> else w2)"

definition stop :: "world \<Rightarrow> world" where
  "stop w = w\<lparr>isActive := False\<rparr>"

definition getProjectId :: "world \<Rightarrow> promise_source" where
  "getProjectId w =
     (if this_projectId w \<noteq> NO_PROJECT_ID_TOKEN then PromiseResolve (this_projectId w)
      else SuperGetProjectId)"

text \<open>The closure \<^verbatim>\<open>afterProjectId\<close> of \<^verbatim>\<open>queueTrace(trace)\<close>.\<close>

definition afterProjectId :: "ref \<Rightarrow> string \<Rightarrow> world \<Rightarrow> world" where
  "afterProjectId trace pid w =
     (let w1 = w\<lparr>traceObj := (traceObj w)(trace := (traceObj w trace)\<lparr>projectId := pid\<rparr>)\<rparr>;
          w2 = w1\<lparr>buffer := buffer w1 @ [JSON_stringify w1 trace]\<rparr>;
          w3 = logger Info
                 [Str (''TraceWriter#queueTrace: buffer.size = '' @ show_nat (length (buffer w2)))]
                 w2
      in if int (length (buffer w3)) \<ge> bufferSize (config w3) then
           let w4 = logger Info [Str ''TraceWriter#queueTrace: Trace buffer full, flushing.''] w3
           in w4\<lparr>immediates := Suc (immediates w4)\<rparr>
         else w3)"

text \<open>The handler of \<^verbatim>\<open>queueTrace\<close> for a rejected project id.\<close>

definition queueTrace_rejected :: "world \<Rightarrow> world" where
  "queueTrace_rejected w =
     logger Info [Str ''TraceWriter#queueTrace: No project ID, dropping trace.''] w"

definition queueTrace :: "ref \<Rightarrow> world \<Rightarrow> world" where
  "queueTrace trace w =
     (if this_projectId w \<noteq> NO_PROJECT_ID_TOKEN then afterProjectId trace (this_projectId w) w
      else w\<lparr>promises := promises w @ [(getProjectId w, QueueTraceThen trace)]\<rparr>)"

text \<open>
  The two loops of \<^verbatim>\<open>writeSpan\<close> over \<^verbatim>\<open>trace.spans\<close>: the first stamps the time
  on every span whose end time is the empty string, reading the clock once for each;
  the second assigns the default labels to the label object of every server span.
\<close>

fun stampEndTimes :: "ref list \<Rightarrow> world \<Rightarrow> world" where
  "stampEndTimes [] w = w"
| "stampEndTimes (span # rest) w =
     stampEndTimes rest
       (if endTime (spanObj w span) = [] then
          w\<lparr>spanObj := (spanObj w)(span := (spanObj w span)\<lparr>endTime := clock w (ticks w)\<rparr>),
            ticks := Suc (ticks w)\<rparr>
        else w)"

fun assignDefaultLabels :: "ref list \<Rightarrow> world \<Rightarrow> world" where
  "assignDefaultLabels [] w = w"
| "assignDefaultLabels (spanData # rest) w =
     assignDefaultLabels rest
       (if kind (spanObj w spanData) = RPC_SERVER then
          w\<lparr>labelObj := (labelObj w)
               (labels (spanObj w spanData) :=
                  Object_assign (labelObj w (labels (spanObj w spanData))) (defaultLabels w))\<rparr>
        else w)"

definition writeSpan :: "ref \<Rightarrow> world \<Rightarrow> world" where
  "writeSpan trace w =
     (let w1 = stampEndTimes (spans (traceObj w trace)) w;
          w2 = assignDefaultLabels (spans (traceObj w1 trace)) w1
      in queueTrace trace w2)"

text \<open>
  \<^verbatim>\<open>initialize(cb)\<close> starts \<^verbatim>\<open>getProjectId()\<close> and \<^verbatim>\<open>getHostname\<close> and returns.
  Each call has its own counter \<^verbatim>\<open>pendingOperations\<close> and its own callback; both
  are named by the number of the call.
\<close>

definition initialize :: "world \<Rightarrow> world" where
  "initialize w =
     (let c = nextInit w
      in w\<lparr>nextInit := Suc c,
           pendingOperations := (pendingOperations w)(c := 2),
           promises := promises w @ [(getProjectId w, InitializeThen c)],
           metadataQueries := metadataQueries w @ [GetHostname c]\<rparr>)"

text \<open>\<^verbatim>\<open>if (--pendingOperations === 0) { cb(); }\<close>\<close>

definition initialize_done :: "nat \<Rightarrow> world \<Rightarrow> world" where
  "initialize_done c w =
     (let n = pendingOperations w c - 1;
          w1 = w\<lparr>pendingOperations := (pendingOperations w)(c := n)\<rparr>
      in if n = 0 then w1\<lparr>cbCalls := cbCalls w1 @ [(c, None)]\<rparr> else w1)"

text \<open>The two handlers that \<^verbatim>\<open>initialize\<close> gives to \<^verbatim>\<open>getProjectId().then\<close>.\<close>

definition initialize_fulfilled :: "nat \<Rightarrow> world \<Rightarrow> world" where
  "initialize_fulfilled c w = initialize_done c (scheduleFlush w)"

definition initialize_rejected :: "nat \<Rightarrow> string \<Rightarrow> world \<Rightarrow> world" where
  "initialize_rejected c err w =
     (let w1 = logger Error
                 [Str ''TraceWriter#initialize: Unable to acquire the project number'',
                  Str ''automatically from the GCP metadata service. Please provide a'',
                  Str ''valid project ID as environmental variable GCLOUD_PROJECT, or as'',
                  Str (''config.projectId passed to start. Original error: '' @ err)] w
      in w1\<lparr>cbCalls := cbCalls w1 @ [(c, Some err)]\<rparr>)"

text \<open>
  The callback of \<^verbatim>\<open>getInstanceId\<close> inside \<^verbatim>\<open>initialize\<close>: it builds the default
  labels from an empty object, freezes them and counts down. The tests
  \<^verbatim>\<open>if (instanceId)\<close>, \<^verbatim>\<open>service || hostname\<close>, \<^verbatim>\<open>if (moduleVersion)\<close> and
  \<^verbatim>\<open>if (minorVersion)\<close> are tests for a truthy value: an instance id other than 0, a
  string other than the empty one. The instance id has the declared type of the callback,
  a number, and is an integer here; \<open>show_int\<close> is what the template literal prints for
  an integer below \<open>2 ^ 53\<close> in absolute value. Larger ids, which JavaScript rounds, and
  ids that the metadata service sends as strings are outside the model. No statement
  below depends on the value of this label.
\<close>

definition initialize_defaultLabels ::
  "environment \<Rightarrow> TraceWriterConfig \<Rightarrow> string \<Rightarrow> int option \<Rightarrow> LabelObject" where
  "initialize_defaultLabels e cfg hostname instanceId =
     (let l1 = setProperty (AGENT_DATA e) (''node '' @ pjson_name e @ '' v'' @ pjson_version e) [];
          l2 = setProperty (GCE_HOSTNAME e) hostname l1;
          l3 = (case instanceId of
                  Some i \<Rightarrow> if i \<noteq> 0 then setProperty (GCE_INSTANCE_ID e) (show_int i) l2 else l2
                | None \<Rightarrow> l2);
          moduleName = (case service (serviceContext cfg) of
                          Some s \<Rightarrow> if s \<noteq> [] then s else hostname
                        | None \<Rightarrow> hostname);
          l4 = setProperty (GAE_MODULE_NAME e) moduleName l3
      in case version (serviceContext cfg) of
           None \<Rightarrow> l4
         | Some moduleVersion \<Rightarrow>
             if moduleVersion = [] then l4
             else
               let l5 = setProperty (GAE_MODULE_VERSION e) moduleVersion l4
               in case minorVersion (serviceContext cfg) of
                    None \<Rightarrow> l5
                  | Some minor \<Rightarrow>
                      if minor = [] then l5
                      else
                        setProperty (GAE_VERSION e)
                          ((if moduleName \<noteq> ''default'' then moduleName @ '':'' else []) @
                           moduleVersion @ ''.'' @ minor) l5)"

definition initialize_labels :: "nat \<Rightarrow> string \<Rightarrow> int option \<Rightarrow> world \<Rightarrow> world" where
  "initialize_labels c hostname instanceId w =
     initialize_done c
       (w\<lparr>defaultLabels := initialize_defaultLabels (env w) (config w) hostname instanceId\<rparr>)"

text \<open>
  \<^verbatim>\<open>getHostname\<close> and \<^verbatim>\<open>getInstanceId\<close> when the metadata service has answered:
  with the data, or with an error (its \<^verbatim>\<open>code\<close>, when it has one, and its string
  form).
\<close>

definition metadata_warning :: "string \<Rightarrow> string option \<times> string \<Rightarrow> world \<Rightarrow> world" where
  "metadata_warning what err w =
     (if fst err \<noteq> Some ''ENOTFOUND'' then
        logger Warn
          [Str what, Str (''from the GCP metadata service. Original error: '' @ snd err)] w
      else w)"

definition getHostname_settled ::
  "nat \<Rightarrow> (string option \<times> string) + string \<Rightarrow> world \<Rightarrow> world" where
  "getHostname_settled c outcome w =
     (case outcome of
        Inr data \<Rightarrow> w\<lparr>metadataQueries := metadataQueries w @ [GetInstanceId c data]\<rparr>
      | Inl err \<Rightarrow>
          let w1 = metadata_warning
                     ''TraceWriter#getHostname: Unable to retrieve GCE hostname'' err w
          in w1\<lparr>metadataQueries :=
                  metadataQueries w1 @ [GetInstanceId c (os_hostname (env w1))]\<rparr>)"

definition getInstanceId_settled ::
  "nat \<Rightarrow> string \<Rightarrow> (string option \<times> string) + int \<Rightarrow> world \<Rightarrow> world" where
  "getInstanceId_settled c hostname outcome w =
     (case outcome of
        Inr data \<Rightarrow> initialize_labels c hostname (Some data) w
      | Inl err \<Rightarrow>
          initialize_labels c hostname None
            (metadata_warning
               ''TraceWriter#getInstanceId: Unable to retrieve GCE instance ID'' err w))"

text \<open>The listener for \<^verbatim>\<open>uncaughtException\<close> that the constructor installs.\<close>

definition unhandledException_listener :: "world \<Rightarrow> world" where
  "unhandledException_listener w =
     (let w1 = flushBuffer w
      in if onUncaughtException (config w1) = ''flushAndExit''
         then w1\<lparr>exitTimers := Suc (exitTimers w1)\<rparr> else w1)"

text \<open>
  The constructor, in a process with the given environment, clock and objects. The
  project id of the service object is the configured one, or the token that stands for
  none. An invalid \<^verbatim>\<open>onUncaughtException\<close> is logged and thrown.
\<close>

definition TraceWriter_fields ::
  "TraceWriterConfig \<Rightarrow> environment \<Rightarrow> (nat \<Rightarrow> string) \<Rightarrow>
   (ref \<Rightarrow> Trace) \<Rightarrow> (ref \<Rightarrow> TraceSpan) \<Rightarrow> (ref \<Rightarrow> LabelObject) \<Rightarrow> world" where
  "TraceWriter_fields cfg e clk ts ss ls =
     \<lparr>config = cfg, env = e,
      buffer = [], defaultLabels = [], isActive = True,
      this_projectId =
        (case config_projectId cfg of
           Some p \<Rightarrow> if p \<noteq> [] then p else NO_PROJECT_ID_TOKEN
         | None \<Rightarrow> NO_PROJECT_ID_TOKEN),
      unhandledException = (onUncaughtException cfg \<noteq> ''ignore''),
      traceObj = ts, spanObj = ss, labelObj = ls,
      clock = clk, ticks = 0,
      logs = [], requests = [], inflight = 0, cbCalls = [],
      immediates = 0, timers = 0, exitTimers = 0, exited = False,
      promises = [], metadataQueries = [],
      pendingOperations = (\<lambda>_. 0), nextInit = 0\<rparr>"

definition TraceWriter_new ::
  "TraceWriterConfig \<Rightarrow> environment \<Rightarrow> (nat \<Rightarrow> string) \<Rightarrow>
   (ref \<Rightarrow> Trace) \<Rightarrow> (ref \<Rightarrow> TraceSpan) \<Rightarrow> (ref \<Rightarrow> LabelObject) \<Rightarrow>
   (logentry \<times> string) + world" where
  "TraceWriter_new cfg e clk ts ss ls =
     (if onUncaughtException cfg \<notin> set onUncaughtExceptionValues then
        Inl ((Error,
              [Str (''TraceWriter#constructor: The value of config.onUncaughtException ['' @
                    onUncaughtException cfg @ ''] should be one of ['' @
                    Array_join_with '', '' onUncaughtExceptionValues @ ''].'')]),
             ''Invalid value for onUncaughtException configuration.'')
      else Inr (TraceWriter_fields cfg e clk ts ss ls))"

subsection \<open>The event loop\<close>

text \<open>
  What can happen to a writer: the host calls a method, the host mutates its own objects,
  or the event loop runs one pending callback. A promise of \<^verbatim>\<open>super.getProjectId()\<close>
  is settled by the collaborator, which on success has stored the id in
  \<^verbatim>\<open>this.projectId\<close> (as the replacement in the test file does); a promise made by
  \<^verbatim>\<open>Promise.resolve\<close> is fulfilled with its value whatever the collaborator says.
  An event that is not enabled (no such pending callback, or the process has exited)
  has no successor. The order in which the pending callbacks run is left open.
\<close>

datatype event =
    Initialize
  | WriteSpan ref
  | Stop
  | CallerMutates "ref \<Rightarrow> Trace" "ref \<Rightarrow> TraceSpan" "ref \<Rightarrow> LabelObject"
  | ProjectIdSettles nat "string + string"
  | HostnameSettles nat "(string option \<times> string) + string"
  | InstanceIdSettles nat "(string option \<times> string) + int"
  | ImmediateFires
  | TimerFires
  | RequestDone "string option" "int option"
  | UncaughtException
  | ExitTimerFires

definition remove_nth :: "nat \<Rightarrow> 'a list \<Rightarrow> 'a list" where
  "remove_nth i xs = take i xs @ drop (Suc i) xs"

definition fulfilled :: "reaction \<Rightarrow> string \<Rightarrow> world \<Rightarrow> world" where
  "fulfilled r pid w =
     (case r of
        InitializeThen c \<Rightarrow> initialize_fulfilled c w
      | QueueTraceThen trace \<Rightarrow> afterProjectId trace pid w)"

definition rejected :: "reaction \<Rightarrow> string \<Rightarrow> world \<Rightarrow> world" where
  "rejected r err w =
     (case r of
        InitializeThen c \<Rightarrow> initialize_rejected c err w
      | QueueTraceThen trace \<Rightarrow> queueTrace_rejected w)"

definition settle :: "nat \<Rightarrow> string + string \<Rightarrow> world \<Rightarrow> world" where
  "settle i outcome w =
     (let w1 = w\<lparr>promises := remove_nth i (promises w)\<rparr>;
          r = snd (promises w ! i)
      in case fst (promises w ! i) of
           PromiseResolve v \<Rightarrow> fulfilled r v w1
         | SuperGetProjectId \<Rightarrow>
             (case outcome of
                Inr pid \<Rightarrow> fulfilled r pid (w1\<lparr>this_projectId := pid\<rparr>)
              | Inl err \<Rightarrow> rejected r err w1))"

definition metadata_hostname ::
  "nat \<Rightarrow> (string option \<times> string) + string \<Rightarrow> world \<Rightarrow> world option" where
  "metadata_hostname i outcome w =
     (case metadataQueries w ! i of
        GetHostname c \<Rightarrow>
          Some (getHostname_settled c outcome
                  (w\<lparr>metadataQueries := remove_nth i (metadataQueries w)\<rparr>))
      | GetInstanceId c h \<Rightarrow> None)"

definition metadata_instanceId ::
  "nat \<Rightarrow> (string option \<times> string) + int \<Rightarrow> world \<Rightarrow> world option" where
  "metadata_instanceId i outcome w =
     (case metadataQueries w ! i of
        GetHostname c \<Rightarrow> None
      | GetInstanceId c h \<Rightarrow>
          Some (getInstanceId_settled c h outcome
                  (w\<lparr>metadataQueries := remove_nth i (metadataQueries w)\<rparr>)))"

definition step :: "event \<Rightarrow> world \<Rightarrow> world option" where
  "step e w =
     (if exited w then None
      else case e of
        Initialize \<Rightarrow> Some (initialize w)
      | WriteSpan trace \<Rightarrow> Some (writeSpan trace w)
      | Stop \<Rightarrow> Some (stop w)
      | CallerMutates ts ss ls \<Rightarrow> Some (w\<lparr>traceObj := ts, spanObj := ss, labelObj := ls\<rparr>)
      | ProjectIdSettles i outcome \<Rightarrow>
          if i < length (promises w) then Some (settle i outcome w) else None
      | HostnameSettles i outcome \<Rightarrow>
          if i < length (metadataQueries w) then metadata_hostname i outcome w else None
      | InstanceIdSettles i outcome \<Rightarrow>
          if i < length (metadataQueries w) then metadata_instanceId i outcome w else None
      | ImmediateFires \<Rightarrow>
          if 0 < immediates w then Some (flushBuffer (w\<lparr>immediates := immediates w - 1\<rparr>))
          else None
      | TimerFires \<Rightarrow>
          if 0 < timers w then Some (scheduleFlush (w\<lparr>timers := timers w - 1\<rparr>)) else None
      | RequestDone err response \<Rightarrow>
          if 0 < inflight w
          then Some (publish_callback err response (w\<lparr>inflight := inflight w - 1\<rparr>))
          else None
      | UncaughtException \<Rightarrow>
          Some (if unhandledException w then unhandledException_listener w else w)
      | ExitTimerFires \<Rightarrow>
          if 0 < exitTimers w
          then Some (w\<lparr>exitTimers := exitTimers w - 1, exited := True\<rparr>) else None)"

fun run :: "event list \<Rightarrow> world \<Rightarrow> world option" where
  "run [] w = Some w"
| "run (e # es) w = (case step e w of None \<Rightarrow> None | Some w' \<Rightarrow> run es w')"

text \<open>The world after a run, for the examples.\<close>

definition after :: "event list \<Rightarrow> world \<Rightarrow> world" where
  "after es w = (case run es w of None \<Rightarrow> w | Some w' \<Rightarrow> w')"

subsection \<open>Predicates of the statements\<close>

text \<open>
  The number of error entries about \<^verbatim>\<open>TraceWriter#publish\<close>, which the test file counts
  with \<^verbatim>\<open>logger.getNumLogsWith('error', 'TraceWriter#publish')\<close>.
\<close>

definition publish_errors :: "logentry list \<Rightarrow> nat" where
  "publish_errors ls =
     length (filter (\<lambda>entry. fst entry = Error \<and>
                       (case snd entry of Str m # _ \<Rightarrow> prefix ''TraceWriter#publish'' m
                        | _ \<Rightarrow> False)) ls)"

text \<open>
  A trace is closed when none of its spans has the empty end time. A buffer entry is
  closed when it is the serialisation of a closed trace. The buffer invariant: every
  entry is closed, and so is every trace that waits for the project id.
\<close>

definition closed :: "world \<Rightarrow> ref \<Rightarrow> bool" where
  "closed w trace = (\<forall>s \<in> set (spans (traceObj w trace)). endTime (spanObj w s) \<noteq> [])"

definition closed_entry :: "string \<Rightarrow> bool" where
  "closed_entry x = (\<exists>w trace. closed w trace \<and> x = JSON_stringify w trace)"

definition buffer_invariant :: "world \<Rightarrow> bool" where
  "buffer_invariant w =
     ((\<forall>x \<in> set (buffer w). closed_entry x) \<and>
      (\<forall>p \<in> set (promises w). \<forall>trace. snd p = QueueTraceThen trace \<longrightarrow> closed w trace))"




text \<open>The collaborator rejects every request for the project id.\<close>

fun rejects :: "event \<Rightarrow> bool" where
  "rejects (ProjectIdSettles i (Inr pid)) = False"
| "rejects _ = True"

text \<open>The cell that a metadata query counts down when it is done.\<close>

fun query_cell :: "metadata_query \<Rightarrow> nat" where
  "query_cell (GetHostname c) = c"
| "query_cell (GetInstanceId c hostname) = c"

text \<open>
  A writer whose project id is unresolved and that has buffered and published nothing,
  with every pending promise one of the collaborator. The counter of an \<^verbatim>\<open>initialize\<close>
  is above the number of its pending metadata queries as long as its own resolution has
  not succeeded.
\<close>

definition unresolved :: "world \<Rightarrow> bool" where
  "unresolved w =
     (this_projectId w = NO_PROJECT_ID_TOKEN \<and> buffer w = [] \<and> requests w = [] \<and>
      (\<forall>p \<in> set (promises w). fst p = SuperGetProjectId))"

definition counting :: "world \<Rightarrow> bool" where
  "counting w =
     ((\<forall>q \<in> set (metadataQueries w). query_cell q < nextInit w) \<and>
      (\<forall>c < nextInit w.
         int (length (filter (\<lambda>q. query_cell q = c) (metadataQueries w))) <
         pendingOperations w c) \<and>
      (\<forall>c. (c, None) \<notin> set (cbCalls w)))"

subsection \<open>Example worlds\<close>

text \<open>
  A writer without a configured project id and with a threshold of two traces, in a
  process whose trace \<open>r\<close> has the one span \<open>r\<close>, a server span with the label object
  \<open>r\<close>; the label object 1 already has an entry for the agent label. \<open>demo_active\<close> is
  the writer after a successful \<^verbatim>\<open>initialize\<close> without a metadata service,
  \<open>demo_buffered\<close> has one trace in the buffer, \<open>demo_full\<close> two and a pending
  flush, \<open>demo_published\<close> a request in flight; \<open>demo_deferred\<close> is the new writer
  with two traces that wait for the project id.
\<close>

definition demo_config :: TraceWriterConfig where
  "demo_config =
     \<lparr>config_projectId = None, onUncaughtException = ''ignore'', bufferSize = 2,
      flushDelaySeconds = 3600, stackTraceLimit = 10, maximumLabelValueSize = 65536,
      serviceContext = \<lparr>service = None, version = None, minorVersion = None\<rparr>\<rparr>"

definition demo_env :: environment where
  "demo_env =
     \<lparr>TRACE_AGENT_REQUEST_HEADER = ''x-cloud-trace-agent-request'',
      AGENT_DATA = ''/agent'', GCE_HOSTNAME = ''/gce/hostname'',
      GCE_INSTANCE_ID = ''/gce/instanceid'', GAE_MODULE_NAME = ''/gae/module'',
      GAE_MODULE_VERSION = ''/gae/module_version'', GAE_VERSION = ''/gae/version'',
      pjson_name = ''trace-agent'', pjson_version = ''2.0.0'', os_hostname = ''localhost''\<rparr>"

definition demo_clk :: "nat \<Rightarrow> string" where
  "demo_clk n = ''2018-01-01T00:00:00.000Z''"

definition demo_traceObj :: "ref \<Rightarrow> Trace" where
  "demo_traceObj r = \<lparr>projectId = [], traceId = [], spans = [r]\<rparr>"

definition demo_spanObj :: "ref \<Rightarrow> TraceSpan" where
  "demo_spanObj r =
     \<lparr>labels = r, startTime = [], endTime = [], kind = RPC_SERVER, name = [], spanId = []\<rparr>"

definition demo_labelObj :: "ref \<Rightarrow> LabelObject" where
  "demo_labelObj r = (if r = 1 then [(''/agent'', ''mine'')] else [])"

definition demo_new :: world where
  "demo_new =
     TraceWriter_fields demo_config demo_env demo_clk demo_traceObj demo_spanObj demo_labelObj"

definition ENOTFOUND :: "(string option \<times> string) + 'a" where
  "ENOTFOUND = Inl (Some ''ENOTFOUND'', ''Error: getaddrinfo ENOTFOUND'')"

definition demo_active :: world where
  "demo_active =
     after [Initialize, ProjectIdSettles 0 (Inr ''my-project''),
            HostnameSettles 0 ENOTFOUND, InstanceIdSettles 0 ENOTFOUND] demo_new"

definition demo_buffered :: world where
  "demo_buffered = after [WriteSpan 0] demo_active"

definition demo_full :: world where
  "demo_full = after [WriteSpan 1] demo_buffered"

definition demo_published :: world where
  "demo_published = after [ImmediateFires] demo_full"

definition demo_deferred :: world where
  "demo_deferred = after [WriteSpan 0, WriteSpan 1] demo_new"


definition demo_mutation :: event where
  "demo_mutation =
     CallerMutates
       ((traceObj (writeSpan 0 demo_new))(0 := (traceObj (writeSpan 0 demo_new) 0)\<lparr>traceId := ''changed''\<rparr>))
       (spanObj (writeSpan 0 demo_new))
       (labelObj (writeSpan 0 demo_new))"

section \<open>What each method leaves alone\<close>

text \<open>
  For every method and callback, the fields of the world that it does not write.
\<close>

lemma logger_frame [simp]:
  "config (logger l args w) = config w"
  "env (logger l args w) = env w"
  "buffer (logger l args w) = buffer w"
  "defaultLabels (logger l args w) = defaultLabels w"
  "isActive (logger l args w) = isActive w"
  "this_projectId (logger l args w) = this_projectId w"
  "unhandledException (logger l args w) = unhandledException w"
  "traceObj (logger l args w) = traceObj w"
  "spanObj (logger l args w) = spanObj w"
  "labelObj (logger l args w) = labelObj w"
  "clock (logger l args w) = clock w"
  "ticks (logger l args w) = ticks w"
  "requests (logger l args w) = requests w"
  "inflight (logger l args w) = inflight w"
  "cbCalls (logger l args w) = cbCalls w"
  "immediates (logger l args w) = immediates w"
  "timers (logger l args w) = timers w"
  "exitTimers (logger l args w) = exitTimers w"
  "exited (logger l args w) = exited w"
  "promises (logger l args w) = promises w"
  "metadataQueries (logger l args w) = metadataQueries w"
  "pendingOperations (logger l args w) = pendingOperations w"
  "nextInit (logger l args w) = nextInit w"
  by (simp_all add: logger_def)

lemma publish_frame [simp]:
  "config (publish json w) = config w"
  "env (publish json w) = env w"
  "buffer (publish json w) = buffer w"
  "defaultLabels (publish json w) = defaultLabels w"
  "isActive (publish json w) = isActive w"
  "this_projectId (publish json w) = this_projectId w"
  "unhandledException (publish json w) = unhandledException w"
  "traceObj (publish json w) = traceObj w"
  "spanObj (publish json w) = spanObj w"
  "labelObj (publish json w) = labelObj w"
  "clock (publish json w) = clock w"
  "ticks (publish json w) = ticks w"
  "cbCalls (publish json w) = cbCalls w"
  "immediates (publish json w) = immediates w"
  "timers (publish json w) = timers w"
  "exitTimers (publish json w) = exitTimers w"
  "exited (publish json w) = exited w"
  "promises (publish json w) = promises w"
  "metadataQueries (publish json w) = metadataQueries w"
  "pendingOperations (publish json w) = pendingOperations w"
  "nextInit (publish json w) = nextInit w"
  by (simp_all add: publish_def Let_def)

lemma publish_callback_frame [simp]:
  "config (publish_callback err response w) = config w"
  "env (publish_callback err response w) = env w"
  "buffer (publish_callback err response w) = buffer w"
  "defaultLabels (publish_callback err response w) = defaultLabels w"
  "isActive (publish_callback err response w) = isActive w"
  "this_projectId (publish_callback err response w) = this_projectId w"
  "unhandledException (publish_callback err response w) = unhandledException w"
  "traceObj (publish_callback err response w) = traceObj w"
  "spanObj (publish_callback err response w) = spanObj w"
  "labelObj (publish_callback err response w) = labelObj w"
  "clock (publish_callback err response w) = clock w"
  "ticks (publish_callback err response w) = ticks w"
  "requests (publish_callback err response w) = requests w"
  "inflight (publish_callback err response w) = inflight w"
  "cbCalls (publish_callback err response w) = cbCalls w"
  "immediates (publish_callback err response w) = immediates w"
  "timers (publish_callback err response w) = timers w"
  "exitTimers (publish_callback err response w) = exitTimers w"
  "exited (publish_callback err response w) = exited w"
  "promises (publish_callback err response w) = promises w"
  "metadataQueries (publish_callback err response w) = metadataQueries w"
  "pendingOperations (publish_callback err response w) = pendingOperations w"
  "nextInit (publish_callback err response w) = nextInit w"
  by (simp_all add: publish_callback_def Let_def split: option.splits)

lemma flushBuffer_frame [simp]:
  "config (flushBuffer w) = config w"
  "env (flushBuffer w) = env w"
  "defaultLabels (flushBuffer w) = defaultLabels w"
  "isActive (flushBuffer w) = isActive w"
  "this_projectId (flushBuffer w) = this_projectId w"
  "unhandledException (flushBuffer w) = unhandledException w"
  "traceObj (flushBuffer w) = traceObj w"
  "spanObj (flushBuffer w) = spanObj w"
  "labelObj (flushBuffer w) = labelObj w"
  "clock (flushBuffer w) = clock w"
  "ticks (flushBuffer w) = ticks w"
  "cbCalls (flushBuffer w) = cbCalls w"
  "immediates (flushBuffer w) = immediates w"
  "timers (flushBuffer w) = timers w"
  "exitTimers (flushBuffer w) = exitTimers w"
  "exited (flushBuffer w) = exited w"
  "promises (flushBuffer w) = promises w"
  "metadataQueries (flushBuffer w) = metadataQueries w"
  "pendingOperations (flushBuffer w) = pendingOperations w"
  "nextInit (flushBuffer w) = nextInit w"
  by (simp_all add: flushBuffer_def Let_def)

lemma scheduleFlush_frame [simp]:
  "config (scheduleFlush w) = config w"
  "env (scheduleFlush w) = env w"
  "defaultLabels (scheduleFlush w) = defaultLabels w"
  "isActive (scheduleFlush w) = isActive w"
  "this_projectId (scheduleFlush w) = this_projectId w"
  "unhandledException (scheduleFlush w) = unhandledException w"
  "traceObj (scheduleFlush w) = traceObj w"
  "spanObj (scheduleFlush w) = spanObj w"
  "labelObj (scheduleFlush w) = labelObj w"
  "clock (scheduleFlush w) = clock w"
  "ticks (scheduleFlush w) = ticks w"
  "cbCalls (scheduleFlush w) = cbCalls w"
  "immediates (scheduleFlush w) = immediates w"
  "exitTimers (scheduleFlush w) = exitTimers w"
  "exited (scheduleFlush w) = exited w"
  "promises (scheduleFlush w) = promises w"
  "metadataQueries (scheduleFlush w) = metadataQueries w"
  "pendingOperations (scheduleFlush w) = pendingOperations w"
  "nextInit (scheduleFlush w) = nextInit w"
  by (simp_all add: scheduleFlush_def Let_def)

lemma stop_frame [simp]:
  "config (stop w) = config w"
  "env (stop w) = env w"
  "buffer (stop w) = buffer w"
  "defaultLabels (stop w) = defaultLabels w"
  "this_projectId (stop w) = this_projectId w"
  "unhandledException (stop w) = unhandledException w"
  "traceObj (stop w) = traceObj w"
  "spanObj (stop w) = spanObj w"
  "labelObj (stop w) = labelObj w"
  "clock (stop w) = clock w"
  "ticks (stop w) = ticks w"
  "logs (stop w) = logs w"
  "requests (stop w) = requests w"
  "inflight (stop w) = inflight w"
  "cbCalls (stop w) = cbCalls w"
  "immediates (stop w) = immediates w"
  "timers (stop w) = timers w"
  "exitTimers (stop w) = exitTimers w"
  "exited (stop w) = exited w"
  "promises (stop w) = promises w"
  "metadataQueries (stop w) = metadataQueries w"
  "pendingOperations (stop w) = pendingOperations w"
  "nextInit (stop w) = nextInit w"
  by (simp_all add: stop_def)

lemma afterProjectId_frame [simp]:
  "config (afterProjectId trace pid w) = config w"
  "env (afterProjectId trace pid w) = env w"
  "defaultLabels (afterProjectId trace pid w) = defaultLabels w"
  "isActive (afterProjectId trace pid w) = isActive w"
  "this_projectId (afterProjectId trace pid w) = this_projectId w"
  "unhandledException (afterProjectId trace pid w) = unhandledException w"
  "spanObj (afterProjectId trace pid w) = spanObj w"
  "labelObj (afterProjectId trace pid w) = labelObj w"
  "clock (afterProjectId trace pid w) = clock w"
  "ticks (afterProjectId trace pid w) = ticks w"
  "requests (afterProjectId trace pid w) = requests w"
  "inflight (afterProjectId trace pid w) = inflight w"
  "cbCalls (afterProjectId trace pid w) = cbCalls w"
  "timers (afterProjectId trace pid w) = timers w"
  "exitTimers (afterProjectId trace pid w) = exitTimers w"
  "exited (afterProjectId trace pid w) = exited w"
  "promises (afterProjectId trace pid w) = promises w"
  "metadataQueries (afterProjectId trace pid w) = metadataQueries w"
  "pendingOperations (afterProjectId trace pid w) = pendingOperations w"
  "nextInit (afterProjectId trace pid w) = nextInit w"
  by (simp_all add: afterProjectId_def Let_def)

lemma queueTrace_rejected_frame [simp]:
  "config (queueTrace_rejected w) = config w"
  "env (queueTrace_rejected w) = env w"
  "buffer (queueTrace_rejected w) = buffer w"
  "defaultLabels (queueTrace_rejected w) = defaultLabels w"
  "isActive (queueTrace_rejected w) = isActive w"
  "this_projectId (queueTrace_rejected w) = this_projectId w"
  "unhandledException (queueTrace_rejected w) = unhandledException w"
  "traceObj (queueTrace_rejected w) = traceObj w"
  "spanObj (queueTrace_rejected w) = spanObj w"
  "labelObj (queueTrace_rejected w) = labelObj w"
  "clock (queueTrace_rejected w) = clock w"
  "ticks (queueTrace_rejected w) = ticks w"
  "requests (queueTrace_rejected w) = requests w"
  "inflight (queueTrace_rejected w) = inflight w"
  "cbCalls (queueTrace_rejected w) = cbCalls w"
  "immediates (queueTrace_rejected w) = immediates w"
  "timers (queueTrace_rejected w) = timers w"
  "exitTimers (queueTrace_rejected w) = exitTimers w"
  "exited (queueTrace_rejected w) = exited w"
  "promises (queueTrace_rejected w) = promises w"
  "metadataQueries (queueTrace_rejected w) = metadataQueries w"
  "pendingOperations (queueTrace_rejected w) = pendingOperations w"
  "nextInit (queueTrace_rejected w) = nextInit w"
  by (simp_all add: queueTrace_rejected_def)

lemma queueTrace_frame [simp]:
  "config (queueTrace trace w) = config w"
  "env (queueTrace trace w) = env w"
  "defaultLabels (queueTrace trace w) = defaultLabels w"
  "isActive (queueTrace trace w) = isActive w"
  "this_projectId (queueTrace trace w) = this_projectId w"
  "unhandledException (queueTrace trace w) = unhandledException w"
  "spanObj (queueTrace trace w) = spanObj w"
  "labelObj (queueTrace trace w) = labelObj w"
  "clock (queueTrace trace w) = clock w"
  "ticks (queueTrace trace w) = ticks w"
  "requests (queueTrace trace w) = requests w"
  "inflight (queueTrace trace w) = inflight w"
  "cbCalls (queueTrace trace w) = cbCalls w"
  "timers (queueTrace trace w) = timers w"
  "exitTimers (queueTrace trace w) = exitTimers w"
  "exited (queueTrace trace w) = exited w"
  "metadataQueries (queueTrace trace w) = metadataQueries w"
  "pendingOperations (queueTrace trace w) = pendingOperations w"
  "nextInit (queueTrace trace w) = nextInit w"
  by (simp_all add: queueTrace_def)

lemma stampEndTimes_frame [simp]:
  "config (stampEndTimes ss w) = config w"
  "env (stampEndTimes ss w) = env w"
  "buffer (stampEndTimes ss w) = buffer w"
  "defaultLabels (stampEndTimes ss w) = defaultLabels w"
  "isActive (stampEndTimes ss w) = isActive w"
  "this_projectId (stampEndTimes ss w) = this_projectId w"
  "unhandledException (stampEndTimes ss w) = unhandledException w"
  "traceObj (stampEndTimes ss w) = traceObj w"
  "labelObj (stampEndTimes ss w) = labelObj w"
  "clock (stampEndTimes ss w) = clock w"
  "logs (stampEndTimes ss w) = logs w"
  "requests (stampEndTimes ss w) = requests w"
  "inflight (stampEndTimes ss w) = inflight w"
  "cbCalls (stampEndTimes ss w) = cbCalls w"
  "immediates (stampEndTimes ss w) = immediates w"
  "timers (stampEndTimes ss w) = timers w"
  "exitTimers (stampEndTimes ss w) = exitTimers w"
  "exited (stampEndTimes ss w) = exited w"
  "promises (stampEndTimes ss w) = promises w"
  "metadataQueries (stampEndTimes ss w) = metadataQueries w"
  "pendingOperations (stampEndTimes ss w) = pendingOperations w"
  "nextInit (stampEndTimes ss w) = nextInit w"
  by (induction ss arbitrary: w) simp_all

lemma assignDefaultLabels_frame [simp]:
  "config (assignDefaultLabels ss w) = config w"
  "env (assignDefaultLabels ss w) = env w"
  "buffer (assignDefaultLabels ss w) = buffer w"
  "defaultLabels (assignDefaultLabels ss w) = defaultLabels w"
  "isActive (assignDefaultLabels ss w) = isActive w"
  "this_projectId (assignDefaultLabels ss w) = this_projectId w"
  "unhandledException (assignDefaultLabels ss w) = unhandledException w"
  "traceObj (assignDefaultLabels ss w) = traceObj w"
  "spanObj (assignDefaultLabels ss w) = spanObj w"
  "clock (assignDefaultLabels ss w) = clock w"
  "ticks (assignDefaultLabels ss w) = ticks w"
  "logs (assignDefaultLabels ss w) = logs w"
  "requests (assignDefaultLabels ss w) = requests w"
  "inflight (assignDefaultLabels ss w) = inflight w"
  "cbCalls (assignDefaultLabels ss w) = cbCalls w"
  "immediates (assignDefaultLabels ss w) = immediates w"
  "timers (assignDefaultLabels ss w) = timers w"
  "exitTimers (assignDefaultLabels ss w) = exitTimers w"
  "exited (assignDefaultLabels ss w) = exited w"
  "promises (assignDefaultLabels ss w) = promises w"
  "metadataQueries (assignDefaultLabels ss w) = metadataQueries w"
  "pendingOperations (assignDefaultLabels ss w) = pendingOperations w"
  "nextInit (assignDefaultLabels ss w) = nextInit w"
  by (induction ss arbitrary: w) simp_all

lemma writeSpan_frame [simp]:
  "config (writeSpan trace w) = config w"
  "env (writeSpan trace w) = env w"
  "defaultLabels (writeSpan trace w) = defaultLabels w"
  "isActive (writeSpan trace w) = isActive w"
  "this_projectId (writeSpan trace w) = this_projectId w"
  "unhandledException (writeSpan trace w) = unhandledException w"
  "clock (writeSpan trace w) = clock w"
  "requests (writeSpan trace w) = requests w"
  "inflight (writeSpan trace w) = inflight w"
  "cbCalls (writeSpan trace w) = cbCalls w"
  "timers (writeSpan trace w) = timers w"
  "exitTimers (writeSpan trace w) = exitTimers w"
  "exited (writeSpan trace w) = exited w"
  "metadataQueries (writeSpan trace w) = metadataQueries w"
  "pendingOperations (writeSpan trace w) = pendingOperations w"
  "nextInit (writeSpan trace w) = nextInit w"
  by (simp_all add: writeSpan_def Let_def)

lemma initialize_frame [simp]:
  "config (initialize w) = config w"
  "env (initialize w) = env w"
  "buffer (initialize w) = buffer w"
  "defaultLabels (initialize w) = defaultLabels w"
  "isActive (initialize w) = isActive w"
  "this_projectId (initialize w) = this_projectId w"
  "unhandledException (initialize w) = unhandledException w"
  "traceObj (initialize w) = traceObj w"
  "spanObj (initialize w) = spanObj w"
  "labelObj (initialize w) = labelObj w"
  "clock (initialize w) = clock w"
  "ticks (initialize w) = ticks w"
  "logs (initialize w) = logs w"
  "requests (initialize w) = requests w"
  "inflight (initialize w) = inflight w"
  "cbCalls (initialize w) = cbCalls w"
  "immediates (initialize w) = immediates w"
  "timers (initialize w) = timers w"
  "exitTimers (initialize w) = exitTimers w"
  "exited (initialize w) = exited w"
  by (simp_all add: initialize_def Let_def)

lemma initialize_done_frame [simp]:
  "config (initialize_done c w) = config w"
  "env (initialize_done c w) = env w"
  "buffer (initialize_done c w) = buffer w"
  "defaultLabels (initialize_done c w) = defaultLabels w"
  "isActive (initialize_done c w) = isActive w"
  "this_projectId (initialize_done c w) = this_projectId w"
  "unhandledException (initialize_done c w) = unhandledException w"
  "traceObj (initialize_done c w) = traceObj w"
  "spanObj (initialize_done c w) = spanObj w"
  "labelObj (initialize_done c w) = labelObj w"
  "clock (initialize_done c w) = clock w"
  "ticks (initialize_done c w) = ticks w"
  "logs (initialize_done c w) = logs w"
  "requests (initialize_done c w) = requests w"
  "inflight (initialize_done c w) = inflight w"
  "immediates (initialize_done c w) = immediates w"
  "timers (initialize_done c w) = timers w"
  "exitTimers (initialize_done c w) = exitTimers w"
  "exited (initialize_done c w) = exited w"
  "promises (initialize_done c w) = promises w"
  "metadataQueries (initialize_done c w) = metadataQueries w"
  "nextInit (initialize_done c w) = nextInit w"
  by (simp_all add: initialize_done_def Let_def)

lemma initialize_fulfilled_frame [simp]:
  "config (initialize_fulfilled c w) = config w"
  "env (initialize_fulfilled c w) = env w"
  "defaultLabels (initialize_fulfilled c w) = defaultLabels w"
  "isActive (initialize_fulfilled c w) = isActive w"
  "this_projectId (initialize_fulfilled c w) = this_projectId w"
  "unhandledException (initialize_fulfilled c w) = unhandledException w"
  "traceObj (initialize_fulfilled c w) = traceObj w"
  "spanObj (initialize_fulfilled c w) = spanObj w"
  "labelObj (initialize_fulfilled c w) = labelObj w"
  "clock (initialize_fulfilled c w) = clock w"
  "ticks (initialize_fulfilled c w) = ticks w"
  "immediates (initialize_fulfilled c w) = immediates w"
  "exitTimers (initialize_fulfilled c w) = exitTimers w"
  "exited (initialize_fulfilled c w) = exited w"
  "promises (initialize_fulfilled c w) = promises w"
  "metadataQueries (initialize_fulfilled c w) = metadataQueries w"
  "nextInit (initialize_fulfilled c w) = nextInit w"
  by (simp_all add: initialize_fulfilled_def)

lemma initialize_rejected_frame [simp]:
  "config (initialize_rejected c err w) = config w"
  "env (initialize_rejected c err w) = env w"
  "buffer (initialize_rejected c err w) = buffer w"
  "defaultLabels (initialize_rejected c err w) = defaultLabels w"
  "isActive (initialize_rejected c err w) = isActive w"
  "this_projectId (initialize_rejected c err w) = this_projectId w"
  "unhandledException (initialize_rejected c err w) = unhandledException w"
  "traceObj (initialize_rejected c err w) = traceObj w"
  "spanObj (initialize_rejected c err w) = spanObj w"
  "labelObj (initialize_rejected c err w) = labelObj w"
  "clock (initialize_rejected c err w) = clock w"
  "ticks (initialize_rejected c err w) = ticks w"
  "requests (initialize_rejected c err w) = requests w"
  "inflight (initialize_rejected c err w) = inflight w"
  "immediates (initialize_rejected c err w) = immediates w"
  "timers (initialize_rejected c err w) = timers w"
  "exitTimers (initialize_rejected c err w) = exitTimers w"
  "exited (initialize_rejected c err w) = exited w"
  "promises (initialize_rejected c err w) = promises w"
  "metadataQueries (initialize_rejected c err w) = metadataQueries w"
  "pendingOperations (initialize_rejected c err w) = pendingOperations w"
  "nextInit (initialize_rejected c err w) = nextInit w"
  by (simp_all add: initialize_rejected_def Let_def)

lemma initialize_labels_frame [simp]:
  "config (initialize_labels c hostname instanceId w) = config w"
  "env (initialize_labels c hostname instanceId w) = env w"
  "buffer (initialize_labels c hostname instanceId w) = buffer w"
  "isActive (initialize_labels c hostname instanceId w) = isActive w"
  "this_projectId (initialize_labels c hostname instanceId w) = this_projectId w"
  "unhandledException (initialize_labels c hostname instanceId w) = unhandledException w"
  "traceObj (initialize_labels c hostname instanceId w) = traceObj w"
  "spanObj (initialize_labels c hostname instanceId w) = spanObj w"
  "labelObj (initialize_labels c hostname instanceId w) = labelObj w"
  "clock (initialize_labels c hostname instanceId w) = clock w"
  "ticks (initialize_labels c hostname instanceId w) = ticks w"
  "logs (initialize_labels c hostname instanceId w) = logs w"
  "requests (initialize_labels c hostname instanceId w) = requests w"
  "inflight (initialize_labels c hostname instanceId w) = inflight w"
  "immediates (initialize_labels c hostname instanceId w) = immediates w"
  "timers (initialize_labels c hostname instanceId w) = timers w"
  "exitTimers (initialize_labels c hostname instanceId w) = exitTimers w"
  "exited (initialize_labels c hostname instanceId w) = exited w"
  "promises (initialize_labels c hostname instanceId w) = promises w"
  "metadataQueries (initialize_labels c hostname instanceId w) = metadataQueries w"
  "nextInit (initialize_labels c hostname instanceId w) = nextInit w"
  by (simp_all add: initialize_labels_def)

lemma metadata_warning_frame [simp]:
  "config (metadata_warning what err w) = config w"
  "env (metadata_warning what err w) = env w"
  "buffer (metadata_warning what err w) = buffer w"
  "defaultLabels (metadata_warning what err w) = defaultLabels w"
  "isActive (metadata_warning what err w) = isActive w"
  "this_projectId (metadata_warning what err w) = this_projectId w"
  "unhandledException (metadata_warning what err w) = unhandledException w"
  "traceObj (metadata_warning what err w) = traceObj w"
  "spanObj (metadata_warning what err w) = spanObj w"
  "labelObj (metadata_warning what err w) = labelObj w"
  "clock (metadata_warning what err w) = clock w"
  "ticks (metadata_warning what err w) = ticks w"
  "requests (metadata_warning what err w) = requests w"
  "inflight (metadata_warning what err w) = inflight w"
  "cbCalls (metadata_warning what err w) = cbCalls w"
  "immediates (metadata_warning what err w) = immediates w"
  "timers (metadata_warning what err w) = timers w"
  "exitTimers (metadata_warning what err w) = exitTimers w"
  "exited (metadata_warning what err w) = exited w"
  "promises (metadata_warning what err w) = promises w"
  "metadataQueries (metadata_warning what err w) = metadataQueries w"
  "pendingOperations (metadata_warning what err w) = pendingOperations w"
  "nextInit (metadata_warning what err w) = nextInit w"
  by (simp_all add: metadata_warning_def)

lemma getHostname_settled_frame [simp]:
  "config (getHostname_settled c outcome w) = config w"
  "env (getHostname_settled c outcome w) = env w"
  "buffer (getHostname_settled c outcome w) = buffer w"
  "defaultLabels (getHostname_settled c outcome w) = defaultLabels w"
  "isActive (getHostname_settled c outcome w) = isActive w"
  "this_projectId (getHostname_settled c outcome w) = this_projectId w"
  "unhandledException (getHostname_settled c outcome w) = unhandledException w"
  "traceObj (getHostname_settled c outcome w) = traceObj w"
  "spanObj (getHostname_settled c outcome w) = spanObj w"
  "labelObj (getHostname_settled c outcome w) = labelObj w"
  "clock (getHostname_settled c outcome w) = clock w"
  "ticks (getHostname_settled c outcome w) = ticks w"
  "requests (getHostname_settled c outcome w) = requests w"
  "inflight (getHostname_settled c outcome w) = inflight w"
  "cbCalls (getHostname_settled c outcome w) = cbCalls w"
  "immediates (getHostname_settled c outcome w) = immediates w"
  "timers (getHostname_settled c outcome w) = timers w"
  "exitTimers (getHostname_settled c outcome w) = exitTimers w"
  "exited (getHostname_settled c outcome w) = exited w"
  "promises (getHostname_settled c outcome w) = promises w"
  "pendingOperations (getHostname_settled c outcome w) = pendingOperations w"
  "nextInit (getHostname_settled c outcome w) = nextInit w"
  by (simp_all add: getHostname_settled_def Let_def split: sum.splits)

lemma getInstanceId_settled_frame [simp]:
  "config (getInstanceId_settled c hostname outcome w) = config w"
  "env (getInstanceId_settled c hostname outcome w) = env w"
  "buffer (getInstanceId_settled c hostname outcome w) = buffer w"
  "isActive (getInstanceId_settled c hostname outcome w) = isActive w"
  "this_projectId (getInstanceId_settled c hostname outcome w) = this_projectId w"
  "unhandledException (getInstanceId_settled c hostname outcome w) = unhandledException w"
  "traceObj (getInstanceId_settled c hostname outcome w) = traceObj w"
  "spanObj (getInstanceId_settled c hostname outcome w) = spanObj w"
  "labelObj (getInstanceId_settled c hostname outcome w) = labelObj w"
  "clock (getInstanceId_settled c hostname outcome w) = clock w"
  "ticks (getInstanceId_settled c hostname outcome w) = ticks w"
  "requests (getInstanceId_settled c hostname outcome w) = requests w"
  "inflight (getInstanceId_settled c hostname outcome w) = inflight w"
  "immediates (getInstanceId_settled c hostname outcome w) = immediates w"
  "timers (getInstanceId_settled c hostname outcome w) = timers w"
  "exitTimers (getInstanceId_settled c hostname outcome w) = exitTimers w"
  "exited (getInstanceId_settled c hostname outcome w) = exited w"
  "promises (getInstanceId_settled c hostname outcome w) = promises w"
  "metadataQueries (getInstanceId_settled c hostname outcome w) = metadataQueries w"
  "nextInit (getInstanceId_settled c hostname outcome w) = nextInit w"
  by (simp_all add: getInstanceId_settled_def split: sum.splits)

lemma unhandledException_listener_frame [simp]:
  "config (unhandledException_listener w) = config w"
  "env (unhandledException_listener w) = env w"
  "defaultLabels (unhandledException_listener w) = defaultLabels w"
  "isActive (unhandledException_listener w) = isActive w"
  "this_projectId (unhandledException_listener w) = this_projectId w"
  "unhandledException (unhandledException_listener w) = unhandledException w"
  "traceObj (unhandledException_listener w) = traceObj w"
  "spanObj (unhandledException_listener w) = spanObj w"
  "labelObj (unhandledException_listener w) = labelObj w"
  "clock (unhandledException_listener w) = clock w"
  "ticks (unhandledException_listener w) = ticks w"
  "cbCalls (unhandledException_listener w) = cbCalls w"
  "immediates (unhandledException_listener w) = immediates w"
  "timers (unhandledException_listener w) = timers w"
  "exited (unhandledException_listener w) = exited w"
  "promises (unhandledException_listener w) = promises w"
  "metadataQueries (unhandledException_listener w) = metadataQueries w"
  "pendingOperations (unhandledException_listener w) = pendingOperations w"
  "nextInit (unhandledException_listener w) = nextInit w"
  by (simp_all add: unhandledException_listener_def Let_def)

lemma fulfilled_frame [simp]:
  "config (fulfilled r pid w) = config w"
  "env (fulfilled r pid w) = env w"
  "defaultLabels (fulfilled r pid w) = defaultLabels w"
  "isActive (fulfilled r pid w) = isActive w"
  "this_projectId (fulfilled r pid w) = this_projectId w"
  "unhandledException (fulfilled r pid w) = unhandledException w"
  "spanObj (fulfilled r pid w) = spanObj w"
  "labelObj (fulfilled r pid w) = labelObj w"
  "clock (fulfilled r pid w) = clock w"
  "ticks (fulfilled r pid w) = ticks w"
  "exitTimers (fulfilled r pid w) = exitTimers w"
  "exited (fulfilled r pid w) = exited w"
  "promises (fulfilled r pid w) = promises w"
  "metadataQueries (fulfilled r pid w) = metadataQueries w"
  "nextInit (fulfilled r pid w) = nextInit w"
  by (simp_all add: fulfilled_def split: reaction.splits)

lemma rejected_frame [simp]:
  "config (rejected r err w) = config w"
  "env (rejected r err w) = env w"
  "buffer (rejected r err w) = buffer w"
  "defaultLabels (rejected r err w) = defaultLabels w"
  "isActive (rejected r err w) = isActive w"
  "this_projectId (rejected r err w) = this_projectId w"
  "unhandledException (rejected r err w) = unhandledException w"
  "traceObj (rejected r err w) = traceObj w"
  "spanObj (rejected r err w) = spanObj w"
  "labelObj (rejected r err w) = labelObj w"
  "clock (rejected r err w) = clock w"
  "ticks (rejected r err w) = ticks w"
  "requests (rejected r err w) = requests w"
  "inflight (rejected r err w) = inflight w"
  "immediates (rejected r err w) = immediates w"
  "timers (rejected r err w) = timers w"
  "exitTimers (rejected r err w) = exitTimers w"
  "exited (rejected r err w) = exited w"
  "promises (rejected r err w) = promises w"
  "metadataQueries (rejected r err w) = metadataQueries w"
  "pendingOperations (rejected r err w) = pendingOperations w"
  "nextInit (rejected r err w) = nextInit w"
  by (simp_all add: rejected_def split: reaction.splits)

lemma settle_frame [simp]:
  "config (settle i outcome w) = config w"
  "env (settle i outcome w) = env w"
  "defaultLabels (settle i outcome w) = defaultLabels w"
  "isActive (settle i outcome w) = isActive w"
  "unhandledException (settle i outcome w) = unhandledException w"
  "spanObj (settle i outcome w) = spanObj w"
  "labelObj (settle i outcome w) = labelObj w"
  "clock (settle i outcome w) = clock w"
  "ticks (settle i outcome w) = ticks w"
  "exitTimers (settle i outcome w) = exitTimers w"
  "exited (settle i outcome w) = exited w"
  "metadataQueries (settle i outcome w) = metadataQueries w"
  "nextInit (settle i outcome w) = nextInit w"
  by (simp_all add: settle_def Let_def split: promise_source.splits sum.splits)

section \<open>Lemmas about the methods\<close>

subsection \<open>stop() and the periodic timer\<close>

text \<open>
  \<^verbatim>\<open>scheduleFlush\<close> arms a timer exactly when the writer is active, and no step makes
  an inactive writer active again.
\<close>

lemma scheduleFlush_timers:
  "timers (scheduleFlush w) = (if isActive w then Suc (timers w) else timers w)"
  by (simp add: scheduleFlush_def Let_def)

lemma settle_timers_inactive: "\<not> isActive w \<Longrightarrow> timers (settle i outcome w) = timers w"
  by (simp add: settle_def fulfilled_def initialize_fulfilled_def scheduleFlush_timers Let_def
      split: promise_source.splits sum.splits reaction.splits)

lemma step_isActive: "step e w = Some w' \<Longrightarrow> \<not> isActive w \<Longrightarrow> \<not> isActive w'"
  by (cases e)
     (auto simp: step_def metadata_hostname_def metadata_instanceId_def stop_def
       split: if_splits metadata_query.splits)

lemma step_timers_inactive:
  "step e w = Some w' \<Longrightarrow> \<not> isActive w \<Longrightarrow>
   timers w' + (if e = TimerFires then 1 else 0) = timers w"
  by (cases e)
     (auto simp: step_def metadata_hostname_def metadata_instanceId_def stop_def
       scheduleFlush_timers settle_timers_inactive
       split: if_splits metadata_query.splits)

lemma run_inactive:
  "run es w = Some w' \<Longrightarrow> \<not> isActive w \<Longrightarrow>
   \<not> isActive w' \<and> timers w' + length (filter (\<lambda>e. e = TimerFires) es) = timers w"
proof (induction es arbitrary: w)
  case Nil
  then show ?case by simp
next
  case (Cons e es)
  from Cons.prems(1) obtain v where v: "step e w = Some v" and r: "run es v = Some w'"
    by (auto split: option.splits)
  have a: "\<not> isActive v" using step_isActive [OF v Cons.prems(2)] .
  have t: "timers v + (if e = TimerFires then 1 else 0) = timers w"
    using step_timers_inactive [OF v Cons.prems(2)] .
  from Cons.IH [OF r a] t show ?case by auto
qed

subsection \<open>Label objects\<close>

text \<open>
  Read as maps, \<open>setProperty\<close> is the update of one key and \<open>Object_assign\<close> is the
  target overridden by the source; both keep the keys of an object distinct.
\<close>

lemma map_of_setProperty: "map_of (setProperty k v ps) = (map_of ps)(k \<mapsto> v)"
  by (induction ps) (auto simp: fun_eq_iff)

lemma map_of_Object_assign:
  "distinct (map fst source) \<Longrightarrow>
   map_of (Object_assign target source) = map_of target ++ map_of source"
proof (induction source arbitrary: target)
  case Nil
  then show ?case by simp
next
  case (Cons p source)
  have notin: "fst p \<notin> dom (map_of source)"
    using Cons.prems by (auto simp: dom_map_of_conv_image_fst)
  have "map_of (Object_assign target (p # source)) =
        (map_of target)(fst p \<mapsto> snd p) ++ map_of source"
    using Cons by (simp add: map_of_setProperty)
  also have "\<dots> = (map_of target ++ map_of source)(fst p \<mapsto> snd p)"
    using notin by (rule map_add_upd_left)
  also have "\<dots> = map_of target ++ map_of (p # source)"
    by (cases p) simp
  finally show ?case .
qed

lemma map_add_twice: "(m ++ d) ++ d = m ++ (d :: 'a \<rightharpoonup> 'b)"
  by (rule ext) (simp add: map_add_def split: option.split)

lemma keys_setProperty: "fst ` set (setProperty k v ps) = insert k (fst ` set ps)"
  by (induction ps) auto

lemma distinct_setProperty:
  "distinct (map fst ps) \<Longrightarrow> distinct (map fst (setProperty k v ps))"
proof (induction ps)
  case Nil
  then show ?case by simp
next
  case (Cons p ps)
  show ?case
  proof (cases "fst p = k")
    case True
    with Cons.prems show ?thesis by simp
  next
    case False
    have "fst p \<notin> fst ` set (setProperty k v ps)"
      using False Cons.prems by (simp add: keys_setProperty)
    with False Cons show ?thesis by simp
  qed
qed

lemma assignDefaultLabels_labelObj:
  "distinct (map fst (defaultLabels w)) \<Longrightarrow>
   map_of (labelObj (assignDefaultLabels ss w) l) =
     (if \<exists>s \<in> set ss. kind (spanObj w s) = RPC_SERVER \<and> labels (spanObj w s) = l
      then map_of (labelObj w l) ++ map_of (defaultLabels w)
      else map_of (labelObj w l))"
proof (induction ss arbitrary: w)
  case Nil
  then show ?case by simp
next
  case (Cons a ss)
  show ?case
  proof (cases "kind (spanObj w a) = RPC_SERVER")
    case False
    then show ?thesis using Cons.IH [OF Cons.prems] by simp
  next
    case True
    let ?w1 = "w\<lparr>labelObj := (labelObj w)
                  (labels (spanObj w a) :=
                     Object_assign (labelObj w (labels (spanObj w a))) (defaultLabels w))\<rparr>"
    have d: "distinct (map fst (defaultLabels ?w1))" using Cons.prems by simp
    show ?thesis
      using True Cons.IH [OF d] Cons.prems
      by (auto simp: map_of_Object_assign map_add_twice)
  qed
qed

subsection \<open>Closing spans\<close>

text \<open>
  The loop that stamps the end times only moves the clock forward. It leaves alone every
  span that has an end time and every span outside the list, and it gives every open span
  of the list a reading of the clock taken during the loop.
\<close>

lemma stampEndTimes_ticks: "ticks w \<le> ticks (stampEndTimes ss w)"
proof (induction ss arbitrary: w)
  case Nil
  then show ?case by simp
next
  case (Cons a ss)
  show ?case
  proof (cases "endTime (spanObj w a) = []")
    case True
    let ?w1 = "w\<lparr>spanObj := (spanObj w)(a := (spanObj w a)\<lparr>endTime := clock w (ticks w)\<rparr>),
                 ticks := Suc (ticks w)\<rparr>"
    have "ticks ?w1 \<le> ticks (stampEndTimes ss ?w1)" by (rule Cons.IH)
    with True show ?thesis by simp
  next
    case False
    with Cons.IH [of w] show ?thesis by simp
  qed
qed

lemma stampEndTimes_kind_labels:
  "kind (spanObj (stampEndTimes ss w) s) = kind (spanObj w s)"
  "labels (spanObj (stampEndTimes ss w) s) = labels (spanObj w s)"
  by (induction ss arbitrary: w) simp_all

lemma stampEndTimes_closed_span:
  "endTime (spanObj w s) \<noteq> [] \<Longrightarrow> spanObj (stampEndTimes ss w) s = spanObj w s"
proof (induction ss arbitrary: w)
  case Nil
  then show ?case by simp
next
  case (Cons a ss)
  show ?case
  proof (cases "endTime (spanObj w a) = []")
    case True
    let ?w1 = "w\<lparr>spanObj := (spanObj w)(a := (spanObj w a)\<lparr>endTime := clock w (ticks w)\<rparr>),
                 ticks := Suc (ticks w)\<rparr>"
    have ne: "a \<noteq> s" using True Cons.prems by auto
    then have "endTime (spanObj ?w1 s) \<noteq> []" using Cons.prems by simp
    from Cons.IH [OF this] ne True show ?thesis by simp
  next
    case False
    with Cons show ?thesis by simp
  qed
qed

lemma stampEndTimes_other_span:
  "s \<notin> set ss \<Longrightarrow> spanObj (stampEndTimes ss w) s = spanObj w s"
  by (induction ss arbitrary: w) simp_all

lemma stampEndTimes_open_span:
  "s \<in> set ss \<Longrightarrow> endTime (spanObj w s) = [] \<Longrightarrow>
   \<exists>n. ticks w \<le> n \<and> n < ticks (stampEndTimes ss w) \<and>
       spanObj (stampEndTimes ss w) s = (spanObj w s)\<lparr>endTime := clock w n\<rparr>"
proof (induction ss arbitrary: w)
  case Nil
  then show ?case by simp
next
  case (Cons a ss)
  let ?w1 = "w\<lparr>spanObj := (spanObj w)(a := (spanObj w a)\<lparr>endTime := clock w (ticks w)\<rparr>),
               ticks := Suc (ticks w)\<rparr>"
  show ?case
  proof (cases "a = s")
    case True
    have step: "stampEndTimes (a # ss) w = stampEndTimes ss ?w1"
      using True Cons.prems(2) by simp
    have mono: "Suc (ticks w) \<le> ticks (stampEndTimes ss ?w1)"
      using stampEndTimes_ticks [of ?w1 ss] by simp
    show ?thesis
    proof (cases "clock w (ticks w) = [] \<and> s \<in> set ss")
      case True
      then have "endTime (spanObj ?w1 s) = []" using \<open>a = s\<close> by simp
      from Cons.IH [OF conjunct2 [OF True] this]
      obtain n where n: "ticks ?w1 \<le> n" "n < ticks (stampEndTimes ss ?w1)"
        "spanObj (stampEndTimes ss ?w1) s = (spanObj ?w1 s)\<lparr>endTime := clock ?w1 n\<rparr>"
        by blast
      show ?thesis
        apply (rule exI [of _ n])
        using n \<open>a = s\<close> step by simp
    next
      case False
      have "spanObj (stampEndTimes ss ?w1) s = spanObj ?w1 s"
      proof (cases "s \<in> set ss")
        case True
        with False have "endTime (spanObj ?w1 s) \<noteq> []" using \<open>a = s\<close> by simp
        then show ?thesis by (rule stampEndTimes_closed_span)
      next
        case False
        then show ?thesis by (rule stampEndTimes_other_span)
      qed
      then show ?thesis
        apply (intro exI [of _ "ticks w"])
        using mono step \<open>a = s\<close> by simp
    qed
  next
    case False
    with Cons.prems have m: "s \<in> set ss" by simp
    show ?thesis
    proof (cases "endTime (spanObj w a) = []")
      case True
      have e: "endTime (spanObj ?w1 s) = []" using False Cons.prems(2) by simp
      from Cons.IH [OF m e]
      obtain n where n: "ticks ?w1 \<le> n" "n < ticks (stampEndTimes ss ?w1)"
        "spanObj (stampEndTimes ss ?w1) s = (spanObj ?w1 s)\<lparr>endTime := clock ?w1 n\<rparr>"
        by blast
      show ?thesis
        apply (rule exI [of _ n])
        using n False True by simp
    next
      case nonempty: False
      from Cons.IH [OF m Cons.prems(2)] nonempty show ?thesis by simp
    qed
  qed
qed

subsection \<open>What writeSpan does to the caller's objects\<close>

text \<open>
  The span objects after \<^verbatim>\<open>writeSpan\<close> are those after the first loop, the label
  objects those after the second; the label object of a server span of the trace is the
  old one overridden by the default labels, however the label objects are shared.
\<close>

lemma writeSpan_spanObj:
  "spanObj (writeSpan trace w) = spanObj (stampEndTimes (spans (traceObj w trace)) w)"
  by (simp add: writeSpan_def Let_def)

lemma writeSpan_labelObj:
  "labelObj (writeSpan trace w) =
   labelObj (assignDefaultLabels (spans (traceObj w trace))
               (stampEndTimes (spans (traceObj w trace)) w))"
  by (simp add: writeSpan_def Let_def)

lemma writeSpan_labels:
  assumes "distinct (map fst (defaultLabels w))"
    and "s \<in> set (spans (traceObj w trace))" and "kind (spanObj w s) = RPC_SERVER"
  shows "map_of (labelObj (writeSpan trace w) (labels (spanObj w s))) =
         map_of (labelObj w (labels (spanObj w s))) ++ map_of (defaultLabels w)"
proof -
  let ?ss = "spans (traceObj w trace)"
  let ?w1 = "stampEndTimes ?ss w"
  have d: "distinct (map fst (defaultLabels ?w1))" using assms(1) by simp
  have "\<exists>s' \<in> set ?ss. kind (spanObj ?w1 s') = RPC_SERVER \<and>
          labels (spanObj ?w1 s') = labels (spanObj w s)"
    using assms(2,3) by (auto simp: stampEndTimes_kind_labels)
  then show ?thesis
    using assignDefaultLabels_labelObj [OF d, of ?ss "labels (spanObj w s)"]
    by (simp add: writeSpan_labelObj)
qed

subsection \<open>The clock of a run\<close>

text \<open>
  No step changes the readings that the clock will give.
\<close>

lemma step_clock: "step e w = Some w' \<Longrightarrow> clock w' = clock w"
  by (cases e)
     (auto simp: step_def metadata_hostname_def metadata_instanceId_def
       split: if_splits metadata_query.splits)

lemma run_clock: "run es w = Some w' \<Longrightarrow> clock w' = clock w"
  by (induction es arbitrary: w) (auto split: option.splits dest: step_clock)

lemma after_clock: "clock (after es w) = clock w"
  by (auto simp: after_def split: option.splits dest: run_clock)

lemma run_after:
  "(case run es w of None \<Rightarrow> False | Some w' \<Rightarrow> True) \<Longrightarrow> run es w = Some (after es w)"
  by (cases "run es w") (simp_all add: after_def)

lemma demo_clock:
  "clock demo_active n = ''2018-01-01T00:00:00.000Z''"
  "clock demo_new n = ''2018-01-01T00:00:00.000Z''"
  by (simp_all add: demo_active_def after_clock demo_new_def TraceWriter_fields_def
        demo_clk_def)

subsection \<open>Enqueueing with a known project id\<close>

text \<open>
  \<open>JSON_stringify\<close> reads only the store of objects, so the entry that \<^verbatim>\<open>afterProjectId\<close>
  appends is the serialisation of the trace in the world it returns. With a known project
  id \<^verbatim>\<open>writeSpan\<close> enqueues at once, and it arms a flush when the threshold is reached.
\<close>

lemma JSON_stringify_heap:
  "traceObj w = traceObj v \<Longrightarrow> spanObj w = spanObj v \<Longrightarrow> labelObj w = labelObj v \<Longrightarrow>
   JSON_stringify w trace = JSON_stringify v trace"
  by (simp add: JSON_stringify_def stringify_span_def cong: map_cong)

lemma afterProjectId_traceObj:
  "traceObj (afterProjectId trace pid w) =
   (traceObj w)(trace := (traceObj w trace)\<lparr>projectId := pid\<rparr>)"
  by (simp add: afterProjectId_def Let_def)

lemma afterProjectId_buffer:
  "buffer (afterProjectId trace pid w) =
   buffer w @ [JSON_stringify (afterProjectId trace pid w) trace]"
proof -
  let ?w1 = "w\<lparr>traceObj := (traceObj w)(trace := (traceObj w trace)\<lparr>projectId := pid\<rparr>)\<rparr>"
  have "JSON_stringify (afterProjectId trace pid w) trace = JSON_stringify ?w1 trace"
    by (rule JSON_stringify_heap) (simp_all add: afterProjectId_traceObj)
  then show ?thesis by (simp add: afterProjectId_def Let_def)
qed


lemma writeSpan_resolved:
  "this_projectId w \<noteq> NO_PROJECT_ID_TOKEN \<Longrightarrow>
   writeSpan trace w =
     afterProjectId trace (this_projectId w)
       (assignDefaultLabels (spans (traceObj w trace))
          (stampEndTimes (spans (traceObj w trace)) w))"
  by (simp add: writeSpan_def queueTrace_def Let_def)

lemma writeSpan_buffer_resolved:
  "this_projectId w \<noteq> NO_PROJECT_ID_TOKEN \<Longrightarrow>
   buffer (writeSpan trace w) = buffer w @ [JSON_stringify (writeSpan trace w) trace]"
  by (simp add: writeSpan_resolved afterProjectId_buffer)



lemma fold_writeSpan_frame [simp]:
  "this_projectId (fold writeSpan ts w) = this_projectId w"
  "config (fold writeSpan ts w) = config w"
  "requests (fold writeSpan ts w) = requests w"
  "exited (fold writeSpan ts w) = exited w"
  by (induction ts arbitrary: w) simp_all



subsection \<open>The buffer invariant\<close>


lemma set_remove_nth: "set (remove_nth i xs) \<subseteq> set xs"
  unfolding remove_nth_def
  using set_take_subset [of i xs] set_drop_subset [of "Suc i" xs] by auto









lemma writeSpan_promises:
  "promises (writeSpan trace w) =
   (if this_projectId w \<noteq> NO_PROJECT_ID_TOKEN then promises w
    else promises w @ [(SuperGetProjectId, QueueTraceThen trace)])"
  by (simp add: writeSpan_def queueTrace_def getProjectId_def Let_def)

lemma writeSpan_buffer_unresolved:
  "this_projectId w = NO_PROJECT_ID_TOKEN \<Longrightarrow> buffer (writeSpan trace w) = buffer w"
  by (simp add: writeSpan_def queueTrace_def Let_def)






subsection \<open>A writer whose project id is never resolved\<close>

text \<open>
  As long as the collaborator rejects, the project id stays the token, every
  \<^verbatim>\<open>writeSpan\<close> is deferred, every flush finds the buffer empty, and the counter of
  an \<^verbatim>\<open>initialize\<close> never reaches zero.
\<close>

lemma flushBuffer_nothing:
  "buffer w = [] \<Longrightarrow> buffer (flushBuffer w) = [] \<and> requests (flushBuffer w) = requests w"
  by (simp add: flushBuffer_def)

lemma scheduleFlush_nothing:
  "buffer w = [] \<Longrightarrow> buffer (scheduleFlush w) = [] \<and> requests (scheduleFlush w) = requests w"
  by (simp add: scheduleFlush_def flushBuffer_def logger_def Let_def)

lemma listener_nothing:
  "buffer w = [] \<Longrightarrow>
   buffer (unhandledException_listener w) = [] \<and>
   requests (unhandledException_listener w) = requests w"
  by (simp add: unhandledException_listener_def flushBuffer_def Let_def)

lemma settle_rejected:
  "fst (promises w ! i) = SuperGetProjectId \<Longrightarrow>
   settle i (Inl err) w =
     rejected (snd (promises w ! i)) err (w\<lparr>promises := remove_nth i (promises w)\<rparr>)"
  by (simp add: settle_def Let_def)

lemma rejects_settles: "rejects (ProjectIdSettles i outcome) \<Longrightarrow> \<exists>err. outcome = Inl err"
  by (cases outcome) simp_all

lemma step_unresolved:
  assumes "unresolved w" and "rejects e" and "step e w = Some w'"
  shows "unresolved w'"
proof -
  have tok: "this_projectId w = NO_PROJECT_ID_TOKEN" and buf: "buffer w = []"
    and req: "requests w = []" and src: "\<forall>p \<in> set (promises w). fst p = SuperGetProjectId"
    using assms(1) by (simp_all add: unresolved_def)
  show ?thesis
  proof (cases e)
    case Initialize
    then have "w' = initialize w" using assms(3) by (simp add: step_def split: if_splits)
    moreover have "promises (initialize w) = promises w @ [(SuperGetProjectId, InitializeThen (nextInit w))]"
      using tok by (simp add: initialize_def getProjectId_def Let_def)
    ultimately show ?thesis using tok buf req src by (simp add: unresolved_def)
  next
    case (WriteSpan t)
    then have "w' = writeSpan t w" using assms(3) by (simp add: step_def split: if_splits)
    then show ?thesis using tok buf req src
      by (simp add: unresolved_def writeSpan_promises writeSpan_buffer_unresolved)
  next
    case Stop
    then have "w' = stop w" using assms(3) by (simp add: step_def split: if_splits)
    then show ?thesis using tok buf req src by (simp add: unresolved_def)
  next
    case (CallerMutates ts ss ls)
    then show ?thesis using assms(3) tok buf req src
      by (auto simp: step_def unresolved_def split: if_splits)
  next
    case (ProjectIdSettles i outcome)
    then obtain err where out: "outcome = Inl err" using assms(2) rejects_settles by blast
    from ProjectIdSettles assms(3) have i: "i < length (promises w)" and w': "w' = settle i outcome w"
      by (simp_all add: step_def split: if_splits)
    have s: "fst (promises w ! i) = SuperGetProjectId" using src i by simp
    have "set (promises w') \<subseteq> set (promises w)"
      using set_remove_nth [of i "promises w"] by (simp add: w' out settle_rejected [OF s])
    then show ?thesis using tok buf req src
      by (auto simp: unresolved_def w' out settle_rejected [OF s])
  next
    case (HostnameSettles i outcome)
    let ?v = "w\<lparr>metadataQueries := remove_nth i (metadataQueries w)\<rparr>"
    from HostnameSettles assms(3) obtain c where "w' = getHostname_settled c outcome ?v"
      by (auto simp: step_def metadata_hostname_def split: if_splits metadata_query.splits)
    then show ?thesis using tok buf req src by (simp add: unresolved_def)
  next
    case (InstanceIdSettles i outcome)
    let ?v = "w\<lparr>metadataQueries := remove_nth i (metadataQueries w)\<rparr>"
    from InstanceIdSettles assms(3) obtain c h where "w' = getInstanceId_settled c h outcome ?v"
      by (auto simp: step_def metadata_instanceId_def split: if_splits metadata_query.splits)
    then show ?thesis using tok buf req src by (simp add: unresolved_def)
  next
    case ImmediateFires
    let ?v = "w\<lparr>immediates := immediates w - 1\<rparr>"
    from ImmediateFires assms(3) have "w' = flushBuffer ?v"
      by (simp add: step_def split: if_splits)
    then show ?thesis using tok buf req src flushBuffer_nothing [of ?v]
      by (simp add: unresolved_def)
  next
    case TimerFires
    let ?v = "w\<lparr>timers := timers w - 1\<rparr>"
    from TimerFires assms(3) have "w' = scheduleFlush ?v"
      by (simp add: step_def split: if_splits)
    then show ?thesis using tok buf req src scheduleFlush_nothing [of ?v]
      by (simp add: unresolved_def)
  next
    case (RequestDone err response)
    let ?v = "w\<lparr>inflight := inflight w - 1\<rparr>"
    from RequestDone assms(3) have "w' = publish_callback err response ?v"
      by (simp add: step_def split: if_splits)
    then show ?thesis using tok buf req src by (simp add: unresolved_def)
  next
    case UncaughtException
    then have "w' = unhandledException_listener w \<or> w' = w"
      using assms(3) by (auto simp: step_def split: if_splits)
    then show ?thesis using tok buf req src listener_nothing [of w] assms(1)
      by (auto simp: unresolved_def)
  next
    case ExitTimerFires
    then show ?thesis using assms(3) tok buf req src
      by (auto simp: step_def unresolved_def split: if_splits)
  qed
qed

lemma length_filter_remove_nth:
  assumes "i < length xs"
  shows "length (filter P xs) =
         length (filter P (remove_nth i xs)) + (if P (xs ! i) then 1 else 0)"
proof -
  have "xs = take i xs @ xs ! i # drop (Suc i) xs"
    using assms by (rule id_take_nth_drop)
  then have "length (filter P xs) = length (filter P (take i xs @ xs ! i # drop (Suc i) xs))"
    by (rule arg_cong)
  then show ?thesis by (simp add: remove_nth_def)
qed

lemma set_remove_nth_mem: "x \<in> set (remove_nth i xs) \<Longrightarrow> x \<in> set xs"
  using set_remove_nth by fastforce

lemma counting_frame:
  assumes "counting w" and "metadataQueries v = metadataQueries w" and "nextInit v = nextInit w"
    and "pendingOperations v = pendingOperations w"
    and "\<And>c. (c, None) \<in> set (cbCalls v) \<Longrightarrow> (c, None) \<in> set (cbCalls w)"
  shows "counting v"
  using assms unfolding counting_def by auto

lemma getInstanceId_settled_count:
  assumes "1 < pendingOperations w c"
  shows "pendingOperations (getInstanceId_settled c h outcome w) =
           (pendingOperations w)(c := pendingOperations w c - 1)"
    and "cbCalls (getInstanceId_settled c h outcome w) = cbCalls w"
  using assms
  by (simp_all add: getInstanceId_settled_def initialize_labels_def initialize_done_def Let_def
      split: sum.splits)

lemma step_counting:
  assumes "unresolved w" and "counting w" and "rejects e" and "step e w = Some w'"
  shows "counting w'"
proof -
  have cells: "\<forall>q \<in> set (metadataQueries w). query_cell q < nextInit w"
    and above: "\<forall>c < nextInit w.
         int (length (filter (\<lambda>q. query_cell q = c) (metadataQueries w))) < pendingOperations w c"
    and none: "\<forall>c. (c, None) \<notin> set (cbCalls w)"
    using assms(2) by (simp_all add: counting_def)
  show ?thesis
  proof (cases e)
    case Initialize
    then have w': "w' = initialize w" using assms(4) by (simp add: step_def split: if_splits)
    have fresh: "filter (\<lambda>q. query_cell q = nextInit w) (metadataQueries w) = []"
      using cells by (auto simp: filter_empty_conv)
    show ?thesis
      using cells above none fresh
      by (auto simp: counting_def w' initialize_def Let_def less_Suc_eq)
  next
    case (WriteSpan t)
    then have "w' = writeSpan t w" using assms(4) by (simp add: step_def split: if_splits)
    then show ?thesis by (intro counting_frame [OF assms(2)]) simp_all
  next
    case Stop
    then have "w' = stop w" using assms(4) by (simp add: step_def split: if_splits)
    then show ?thesis by (intro counting_frame [OF assms(2)]) simp_all
  next
    case (CallerMutates ts ss ls)
    then have "w' = w\<lparr>traceObj := ts, spanObj := ss, labelObj := ls\<rparr>"
      using assms(4) by (simp add: step_def split: if_splits)
    then show ?thesis by (intro counting_frame [OF assms(2)]) simp_all
  next
    case (ProjectIdSettles i outcome)
    then obtain err where out: "outcome = Inl err" using assms(3) rejects_settles by blast
    from ProjectIdSettles assms(4) have i: "i < length (promises w)" and w': "w' = settle i outcome w"
      by (simp_all add: step_def split: if_splits)
    have s: "fst (promises w ! i) = SuperGetProjectId"
      using assms(1) i by (simp add: unresolved_def)
    have cb: "\<And>c. (c, None) \<notin> set (cbCalls w')"
      using none
      by (simp add: w' out settle_rejected [OF s] rejected_def initialize_rejected_def
          queueTrace_rejected_def Let_def split: reaction.splits)
    have fr: "metadataQueries w' = metadataQueries w" "nextInit w' = nextInit w"
      "pendingOperations w' = pendingOperations w"
      by (simp_all add: w' out settle_rejected [OF s])
    show ?thesis
      using cells above cb
      by (simp add: counting_def fr)
  next
    case (HostnameSettles i outcome)
    let ?v = "w\<lparr>metadataQueries := remove_nth i (metadataQueries w)\<rparr>"
    from HostnameSettles assms(4) obtain c where i: "i < length (metadataQueries w)"
      and q: "metadataQueries w ! i = GetHostname c"
      and w': "w' = getHostname_settled c outcome ?v"
      by (auto simp: step_def metadata_hostname_def split: if_splits metadata_query.splits)
    obtain h where m: "metadataQueries w' = remove_nth i (metadataQueries w) @ [GetInstanceId c h]"
      by (cases outcome) (simp_all add: w' getHostname_settled_def Let_def)
    have c: "c < nextInit w" using cells i q by (metis nth_mem query_cell.simps(1))
    have len: "\<And>c'. length (filter (\<lambda>q. query_cell q = c') (metadataQueries w')) =
                 length (filter (\<lambda>q. query_cell q = c') (metadataQueries w))"
      using length_filter_remove_nth [OF i, of "\<lambda>q. query_cell q = c'" for c'] q
      by (simp add: m)
    have fr: "nextInit w' = nextInit w" "pendingOperations w' = pendingOperations w"
      "cbCalls w' = cbCalls w"
      by (simp_all add: w')
    show ?thesis
      using cells above none c len
      by (auto simp: counting_def fr m dest: set_remove_nth_mem)
  next
    case (InstanceIdSettles i outcome)
    let ?v = "w\<lparr>metadataQueries := remove_nth i (metadataQueries w)\<rparr>"
    from InstanceIdSettles assms(4) obtain c h where i: "i < length (metadataQueries w)"
      and q: "metadataQueries w ! i = GetInstanceId c h"
      and w': "w' = getInstanceId_settled c h outcome ?v"
      by (auto simp: step_def metadata_instanceId_def split: if_splits metadata_query.splits)
    have c: "c < nextInit w" using cells i q by (metis nth_mem query_cell.simps(2))
    have len: "\<And>c'. length (filter (\<lambda>q. query_cell q = c') (metadataQueries w)) =
                 length (filter (\<lambda>q. query_cell q = c') (remove_nth i (metadataQueries w))) +
                 (if c = c' then 1 else 0)"
      using length_filter_remove_nth [OF i, of "\<lambda>q. query_cell q = c'" for c'] q
      by simp
    have big: "1 < pendingOperations w c" using above c len [of c] by fastforce
    have fr: "metadataQueries w' = remove_nth i (metadataQueries w)" "nextInit w' = nextInit w"
      by (simp_all add: w')
    have cnt: "pendingOperations w' = (pendingOperations w)(c := pendingOperations w c - 1)"
      "cbCalls w' = cbCalls w"
      using big by (simp_all add: w' getInstanceId_settled_count)
    show ?thesis
      using cells above none len
      by (auto simp: counting_def fr cnt dest: set_remove_nth_mem)
  next
    case ImmediateFires
    let ?v = "w\<lparr>immediates := immediates w - 1\<rparr>"
    from ImmediateFires assms(4) have "w' = flushBuffer ?v"
      by (simp add: step_def split: if_splits)
    then show ?thesis by (intro counting_frame [OF assms(2)]) simp_all
  next
    case TimerFires
    let ?v = "w\<lparr>timers := timers w - 1\<rparr>"
    from TimerFires assms(4) have "w' = scheduleFlush ?v"
      by (simp add: step_def split: if_splits)
    then show ?thesis by (intro counting_frame [OF assms(2)]) simp_all
  next
    case (RequestDone err response)
    let ?v = "w\<lparr>inflight := inflight w - 1\<rparr>"
    from RequestDone assms(4) have "w' = publish_callback err response ?v"
      by (simp add: step_def split: if_splits)
    then show ?thesis by (intro counting_frame [OF assms(2)]) simp_all
  next
    case UncaughtException
    then have "w' = unhandledException_listener w \<or> w' = w"
      using assms(4) by (auto simp: step_def split: if_splits)
    then show ?thesis using assms(2) by (auto intro: counting_frame [OF assms(2)])
  next
    case ExitTimerFires
    then have "w' = w\<lparr>exitTimers := exitTimers w - 1, exited := True\<rparr>"
      using assms(4) by (simp add: step_def split: if_splits)
    then show ?thesis by (intro counting_frame [OF assms(2)]) simp_all
  qed
qed

lemma run_unresolved:
  assumes "unresolved w \<and> counting w" and "\<forall>e \<in> set es. rejects e" and "run es w = Some w'"
  shows "unresolved w' \<and> counting w'"
  using assms
proof (induction es arbitrary: w)
  case Nil
  then show ?case by simp
next
  case (Cons e es)
  from Cons.prems(3) obtain v where v: "step e w = Some v" and r: "run es v = Some w'"
    by (auto split: option.splits)
  have "unresolved v \<and> counting v"
    using step_unresolved [OF _ _ v] step_counting [OF _ _ _ v] Cons.prems(1,2) by simp
  from Cons.IH [OF this _ r] Cons.prems(2) show ?case by simp
qed

lemma new_unresolved:
  assumes "TraceWriter_new cfg e clk ts ss ls = Inr w"
    and "this_projectId w = NO_PROJECT_ID_TOKEN"
  shows "unresolved w \<and> counting w"
  using assms
  by (auto simp: TraceWriter_new_def TraceWriter_fields_def unresolved_def counting_def
      split: if_splits)

subsection \<open>What a step does to the buffer\<close>

text \<open>
  A step leaves the buffer alone, or appends one entry, or empties it with one request
  whose body is made of the entries.
\<close>

lemma flushBuffer_cases:
  "(buffer w = [] \<and> flushBuffer w = w) \<or>
   (buffer w \<noteq> [] \<and> buffer (flushBuffer w) = [] \<and>
    map body (requests (flushBuffer w)) =
      map body (requests w) @ [flushBuffer_payload (buffer w)])"
  by (simp add: flushBuffer_def publish_def logger_def Let_def)

lemma scheduleFlush_cases:
  "(buffer w = [] \<and> buffer (scheduleFlush w) = [] \<and> requests (scheduleFlush w) = requests w) \<or>
   (buffer w \<noteq> [] \<and> buffer (scheduleFlush w) = [] \<and>
    map body (requests (scheduleFlush w)) =
      map body (requests w) @ [flushBuffer_payload (buffer w)])"
  by (simp add: scheduleFlush_def flushBuffer_def publish_def logger_def Let_def)

lemma listener_cases:
  "(buffer w = [] \<and> buffer (unhandledException_listener w) = [] \<and>
    requests (unhandledException_listener w) = requests w) \<or>
   (buffer w \<noteq> [] \<and> buffer (unhandledException_listener w) = [] \<and>
    map body (requests (unhandledException_listener w)) =
      map body (requests w) @ [flushBuffer_payload (buffer w)])"
  by (simp add: unhandledException_listener_def flushBuffer_def publish_def logger_def Let_def)

lemma settle_buffer:
  "(buffer (settle i outcome w) = buffer w \<and> requests (settle i outcome w) = requests w) \<or>
   (\<exists>x. buffer (settle i outcome w) = buffer w @ [x] \<and>
        requests (settle i outcome w) = requests w) \<or>
   (buffer w \<noteq> [] \<and> buffer (settle i outcome w) = [] \<and>
    map body (requests (settle i outcome w)) =
      map body (requests w) @ [flushBuffer_payload (buffer w)])"
proof -
  let ?w1 = "w\<lparr>promises := remove_nth i (promises w)\<rparr>"
  have ful: "\<And>r pid (v :: world). buffer v = buffer w \<Longrightarrow> requests v = requests w \<Longrightarrow>
     (buffer (fulfilled r pid v) = buffer w \<and> requests (fulfilled r pid v) = requests w) \<or>
     (\<exists>x. buffer (fulfilled r pid v) = buffer w @ [x] \<and>
          requests (fulfilled r pid v) = requests w) \<or>
     (buffer w \<noteq> [] \<and> buffer (fulfilled r pid v) = [] \<and>
      map body (requests (fulfilled r pid v)) =
        map body (requests w) @ [flushBuffer_payload (buffer w)])"
  proof -
    fix r pid and v :: world
    assume v: "buffer v = buffer w" "requests v = requests w"
    show "(buffer (fulfilled r pid v) = buffer w \<and> requests (fulfilled r pid v) = requests w) \<or>
     (\<exists>x. buffer (fulfilled r pid v) = buffer w @ [x] \<and>
          requests (fulfilled r pid v) = requests w) \<or>
     (buffer w \<noteq> [] \<and> buffer (fulfilled r pid v) = [] \<and>
      map body (requests (fulfilled r pid v)) =
        map body (requests w) @ [flushBuffer_payload (buffer w)])"
    proof (cases r)
      case (InitializeThen c)
      have b: "buffer (initialize_done c (scheduleFlush v)) = buffer (scheduleFlush v)"
        and q: "requests (initialize_done c (scheduleFlush v)) = requests (scheduleFlush v)"
        by simp_all
      show ?thesis
        using scheduleFlush_cases [of v] v
        by (auto simp: InitializeThen fulfilled_def initialize_fulfilled_def b q)
    next
      case (QueueTraceThen trace)
      then show ?thesis
        using v by (simp add: fulfilled_def afterProjectId_buffer)
    qed
  qed
  show ?thesis
  proof (cases "fst (promises w ! i)")
    case (PromiseResolve val)
    then show ?thesis using ful [of ?w1] by (simp add: settle_def Let_def)
  next
    case SuperGetProjectId
    show ?thesis
    proof (cases outcome)
      case (Inl err)
      then show ?thesis using SuperGetProjectId by (simp add: settle_def Let_def)
    next
      case (Inr pid)
      then show ?thesis
        using SuperGetProjectId ful [of "?w1\<lparr>this_projectId := pid\<rparr>"]
        by (simp add: settle_def Let_def)
    qed
  qed
qed

lemma step_buffer:
  assumes "step e w = Some w'"
  shows "(buffer w' = buffer w \<and> requests w' = requests w) \<or>
         (\<exists>x. buffer w' = buffer w @ [x] \<and> requests w' = requests w) \<or>
         (buffer w \<noteq> [] \<and> buffer w' = [] \<and>
          map body (requests w') = map body (requests w) @ [flushBuffer_payload (buffer w)])"
proof (cases e)
  case Initialize
  then have "w' = initialize w" using assms by (simp add: step_def split: if_splits)
  then show ?thesis by simp
next
  case (WriteSpan t)
  then have "w' = writeSpan t w" using assms by (simp add: step_def split: if_splits)
  then show ?thesis
    by (cases "this_projectId w = NO_PROJECT_ID_TOKEN")
       (simp_all add: writeSpan_buffer_unresolved writeSpan_buffer_resolved)
next
  case Stop
  then have "w' = stop w" using assms by (simp add: step_def split: if_splits)
  then show ?thesis by simp
next
  case (CallerMutates ts ss ls)
  then show ?thesis using assms by (auto simp: step_def split: if_splits)
next
  case (ProjectIdSettles i outcome)
  then have "w' = settle i outcome w" using assms by (simp add: step_def split: if_splits)
  then show ?thesis using settle_buffer [of i outcome w] by simp
next
  case (HostnameSettles i outcome)
  let ?v = "w\<lparr>metadataQueries := remove_nth i (metadataQueries w)\<rparr>"
  from HostnameSettles assms obtain c where "w' = getHostname_settled c outcome ?v"
    by (auto simp: step_def metadata_hostname_def split: if_splits metadata_query.splits)
  then show ?thesis by simp
next
  case (InstanceIdSettles i outcome)
  let ?v = "w\<lparr>metadataQueries := remove_nth i (metadataQueries w)\<rparr>"
  from InstanceIdSettles assms obtain c h where "w' = getInstanceId_settled c h outcome ?v"
    by (auto simp: step_def metadata_instanceId_def split: if_splits metadata_query.splits)
  then show ?thesis by simp
next
  case ImmediateFires
  let ?v = "w\<lparr>immediates := immediates w - 1\<rparr>"
  from ImmediateFires assms have "w' = flushBuffer ?v"
    by (simp add: step_def split: if_splits)
  then show ?thesis using flushBuffer_cases [of ?v] by auto
next
  case TimerFires
  let ?v = "w\<lparr>timers := timers w - 1\<rparr>"
  from TimerFires assms have "w' = scheduleFlush ?v"
    by (simp add: step_def split: if_splits)
  then show ?thesis using scheduleFlush_cases [of ?v] by auto
next
  case (RequestDone err response)
  let ?v = "w\<lparr>inflight := inflight w - 1\<rparr>"
  from RequestDone assms have "w' = publish_callback err response ?v"
    by (simp add: step_def split: if_splits)
  then show ?thesis by simp
next
  case UncaughtException
  then have "w' = unhandledException_listener w \<or> w' = w"
    using assms by (auto simp: step_def split: if_splits)
  then show ?thesis using listener_cases [of w] by auto
next
  case ExitTimerFires
  then show ?thesis using assms by (auto simp: step_def split: if_splits)
qed

subsection \<open>Writers that the constructor makes\<close>

text \<open>
  The default labels of a constructed writer always have distinct keys, and a new writer
  satisfies the buffer invariant.
\<close>

lemma distinct_initialize_defaultLabels:
  "distinct (map fst (initialize_defaultLabels e cfg hostname instanceId))"
  by (simp add: initialize_defaultLabels_def Let_def distinct_setProperty split: option.splits)

lemma step_defaultLabels:
  assumes "step e w = Some w'" and "distinct (map fst (defaultLabels w))"
  shows "distinct (map fst (defaultLabels w'))"
proof (cases e)
  case (InstanceIdSettles i outcome)
  let ?v = "w\<lparr>metadataQueries := remove_nth i (metadataQueries w)\<rparr>"
  from InstanceIdSettles assms(1) obtain c h where "w' = getInstanceId_settled c h outcome ?v"
    by (auto simp: step_def metadata_instanceId_def split: if_splits metadata_query.splits)
  then show ?thesis
    by (cases outcome)
       (simp_all add: getInstanceId_settled_def initialize_labels_def
          distinct_initialize_defaultLabels)
next
  case (HostnameSettles i outcome)
  then show ?thesis using assms
    by (auto simp: step_def metadata_hostname_def split: if_splits metadata_query.splits)
qed (use assms in \<open>auto simp: step_def split: if_splits\<close>)

lemma run_defaultLabels:
  "run es w = Some w' \<Longrightarrow> distinct (map fst (defaultLabels w)) \<Longrightarrow>
   distinct (map fst (defaultLabels w'))"
  by (induction es arbitrary: w) (auto split: option.splits dest: step_defaultLabels)

lemma new_defaultLabels:
  assumes "TraceWriter_new cfg e clk ts ss ls = Inr w" and "run es w = Some w'"
  shows "distinct (map fst (defaultLabels w'))"
proof -
  have "defaultLabels w = []"
    using assms(1) by (auto simp: TraceWriter_new_def TraceWriter_fields_def split: if_splits)
  then show ?thesis using run_defaultLabels [OF assms(2)] by simp
qed

lemma new_buffer_invariant:
  assumes "TraceWriter_new cfg e clk ts ss ls = Inr w"
  shows "buffer_invariant w"
  using assms
  by (auto simp: TraceWriter_new_def TraceWriter_fields_def buffer_invariant_def
      split: if_splits)

subsection \<open>The example worlds are worlds of the writer\<close>

text \<open>
  The example worlds are the results of runs of the constructed example writer.
\<close>

lemma demo_new_constructed:
  "TraceWriter_new demo_config demo_env demo_clk demo_traceObj demo_spanObj demo_labelObj =
   Inr demo_new"
  by (simp add: TraceWriter_new_def demo_new_def demo_config_def onUncaughtExceptionValues_def)

lemma demo_reachable:
  "run [Initialize, ProjectIdSettles 0 (Inr ''my-project''),
        HostnameSettles 0 ENOTFOUND, InstanceIdSettles 0 ENOTFOUND] demo_new = Some demo_active"
  "run [WriteSpan 0] demo_active = Some demo_buffered"
  "run [WriteSpan 1] demo_buffered = Some demo_full"
  "run [ImmediateFires] demo_full = Some demo_published"
  "run [WriteSpan 0, WriteSpan 1] demo_new = Some demo_deferred"
  unfolding demo_active_def demo_buffered_def demo_full_def demo_published_def
    demo_deferred_def
  by (rule run_after, code_simp)+

section \<open>Default labels on server spans\<close>

text \<open>
  Claim C1 says that \<^verbatim>\<open>writeSpan\<close> gives a server span every default label except for
  the keys that the caller had already set, whose values are preserved. The code merges
  with \<^verbatim>\<open>Object.assign(spanData.labels, this.defaultLabels)\<close>, which overwrites: in
  the initialised writer, the span whose label object already has an entry for the agent
  label leaves \<^verbatim>\<open>writeSpan\<close> with the value of the default label.
\<close>

theorem caller_label_overwritten_counterexample:
  "kind (spanObj demo_active 1) = RPC_SERVER \<and>
   map_of (labelObj demo_active (labels (spanObj demo_active 1))) ''/agent'' = Some ''mine'' \<and>
   map_of (labelObj (writeSpan 1 demo_active) (labels (spanObj (writeSpan 1 demo_active) 1)))
     ''/agent'' = Some ''node trace-agent v2.0.0''"
  by code_simp

text \<open>
  Claim C1 as amended: for every span of kind RPC_SERVER of the trace, after
  \<^verbatim>\<open>writeSpan\<close> every key of the default labels is in the labels of the span with the
  value of the default labels, also when the caller had set that key; a key that is not
  among the default labels has the value it had before (or is absent as before). The
  default labels are an object, so their keys are distinct; they are in every world that
  a constructed writer reaches.
\<close>

theorem writeSpan_default_labels:
  assumes "distinct (map fst (defaultLabels w))"
    and "s \<in> set (spans (traceObj w trace))" and "kind (spanObj w s) = RPC_SERVER"
  shows "map_of (labelObj (writeSpan trace w) (labels (spanObj (writeSpan trace w) s))) k =
         (case map_of (defaultLabels w) k of
            Some v \<Rightarrow> Some v
          | None \<Rightarrow> map_of (labelObj w (labels (spanObj w s))) k)"
  using writeSpan_labels [OF assms]
  by (simp add: writeSpan_spanObj stampEndTimes_kind_labels map_add_def)

theorem writeSpan_default_labels_witness:
  "distinct (map fst (defaultLabels demo_active)) \<and>
   1 \<in> set (spans (traceObj demo_active 1)) \<and> kind (spanObj demo_active 1) = RPC_SERVER \<and>
   map_of (labelObj (writeSpan 1 demo_active) (labels (spanObj (writeSpan 1 demo_active) 1)))
     ''/gce/hostname'' = Some ''localhost''"
proof -
  have d: "distinct (map fst (defaultLabels demo_active))" by code_simp
  have m: "1 \<in> set (spans (traceObj demo_active 1))" by code_simp
  have k: "kind (spanObj demo_active 1) = RPC_SERVER" by code_simp
  have v: "map_of (defaultLabels demo_active) ''/gce/hostname'' = Some ''localhost''"
    by code_simp
  from writeSpan_default_labels [OF d m k, of "''/gce/hostname''"] d m k v
  show ?thesis by simp
qed

section \<open>stop() and the flushes that follow it\<close>

text \<open>
  Claim C2 says that once \<^verbatim>\<open>stop()\<close> has been called no flush and no publish call
  occurs any more, whatever timers and \<^verbatim>\<open>setImmediate\<close> callbacks were armed before.
  The code does otherwise: \<^verbatim>\<open>stop()\<close> clears \<^verbatim>\<open>isActive\<close> and cancels nothing, and
  \<^verbatim>\<open>scheduleFlush\<close> flushes before it looks at \<^verbatim>\<open>isActive\<close>. In the writer with one
  buffered trace and its periodic timer armed, \<^verbatim>\<open>stop()\<close> followed by the timer
  publishes the trace; in the writer with a full buffer and the size-triggered flush
  pending, \<^verbatim>\<open>stop()\<close> followed by that flush publishes as well.
\<close>

theorem flush_after_stop_counterexample:
  "length (requests demo_buffered) = 0 \<and>
   map_option (\<lambda>w. length (requests w)) (run [Stop, TimerFires] demo_buffered) = Some 1 \<and>
   length (requests demo_full) = 0 \<and>
   map_option (\<lambda>w. length (requests w)) (run [Stop, ImmediateFires] demo_full) = Some 1"
  by code_simp

text \<open>
  Claim C2 as amended: after \<^verbatim>\<open>stop()\<close> the writer stays inactive and the periodic timer
  is never armed again. Whatever happens afterwards, the timers still pending plus the
  timers that have fired are exactly the timers that were pending at \<^verbatim>\<open>stop()\<close>: each
  of them runs one last flush and none is replaced.
\<close>

theorem stop_never_rearms:
  assumes "run es (stop w) = Some w'"
  shows "\<not> isActive w' \<and> timers w' + length (filter (\<lambda>e. e = TimerFires) es) = timers w"
  using run_inactive [OF assms] by (simp add: stop_def)

theorem stop_never_rearms_witness:
  "run [TimerFires] (stop demo_buffered) =
     Some (scheduleFlush ((stop demo_buffered)\<lparr>timers := timers (stop demo_buffered) - 1\<rparr>)) \<and>
   \<not> isActive (scheduleFlush ((stop demo_buffered)\<lparr>timers := timers (stop demo_buffered) - 1\<rparr>)) \<and>
   timers (scheduleFlush ((stop demo_buffered)\<lparr>timers := timers (stop demo_buffered) - 1\<rparr>)) + 1 =
     timers demo_buffered"
proof -
  have e: "\<not> exited (stop demo_buffered)" by code_simp
  have t: "0 < timers (stop demo_buffered)" by code_simp
  have r: "run [TimerFires] (stop demo_buffered) =
             Some (scheduleFlush ((stop demo_buffered)\<lparr>timers := timers (stop demo_buffered) - 1\<rparr>))"
    using e t by (simp add: step_def)
  from stop_never_rearms [OF r] r show ?thesis by simp
qed

section \<open>The size trigger\<close>



section \<open>flushBuffer\<close>



section \<open>Only closed traces enter the buffer\<close>




section \<open>When the project id cannot be resolved\<close>

text \<open>
  Claim C6 says that if the resolution of the project id fails, the callback of
  \<^verbatim>\<open>initialize\<close> is invoked with an error and no trace written before or after the
  failure is ever appended to the buffer or published. The first half holds. The second
  does not: the rejection handler of \<^verbatim>\<open>initialize\<close> logs and calls the callback, and
  nothing makes the writer inert; every later \<^verbatim>\<open>writeSpan\<close> asks the collaborator
  again, and a trace whose own request is fulfilled is buffered. In the run below the
  request of \<^verbatim>\<open>initialize\<close> is rejected and the callback gets the error; then trace 0
  is written and its request is fulfilled, which puts it in the buffer; a second trace
  fills the buffer and the flush makes one request.
\<close>

theorem trace_after_failure_counterexample:
  "map_option cbCalls
     (run [Initialize, ProjectIdSettles 0 (Inl ''unreachable'')] demo_new) =
     Some [(0, Some ''unreachable'')] \<and>
   map_option (\<lambda>w. buffer w = [JSON_stringify w 0])
     (run [Initialize, ProjectIdSettles 0 (Inl ''unreachable''), WriteSpan 0,
           ProjectIdSettles 0 (Inr ''my-project'')] demo_new) = Some True \<and>
   map_option (\<lambda>w. length (requests w))
     (run [Initialize, ProjectIdSettles 0 (Inl ''unreachable''), WriteSpan 0,
           ProjectIdSettles 0 (Inr ''my-project''), WriteSpan 1, ImmediateFires] demo_new) =
     Some 1"
  by code_simp

text \<open>
  Claim C6 as amended: when the request of an \<^verbatim>\<open>initialize\<close> for the project id is
  rejected, its callback is invoked with that error, one error entry is logged and
  nothing else of the writer changes. As long as the collaborator rejects every request
  for the project id, in a writer that was constructed without one, no trace is ever
  appended to the buffer, no request is ever made, and the callback of no
  \<^verbatim>\<open>initialize\<close> is invoked without an error, whatever is written before or after
  the failure. (A trace whose own request is fulfilled later is buffered.)
\<close>

theorem identity_resolution_fails:
  "(\<not> exited v \<and> i < length (promises v) \<and>
    promises v ! i = (SuperGetProjectId, InitializeThen c) \<longrightarrow>
      step (ProjectIdSettles i (Inl err)) v =
        Some (v\<lparr>promises := remove_nth i (promises v),
                logs := logs v @
                  [(Error,
                    [Str ''TraceWriter#initialize: Unable to acquire the project number'',
                     Str ''automatically from the GCP metadata service. Please provide a'',
                     Str ''valid project ID as environmental variable GCLOUD_PROJECT, or as'',
                     Str (''config.projectId passed to start. Original error: '' @ err)])],
                cbCalls := cbCalls v @ [(c, Some err)]\<rparr>)) \<and>
   (TraceWriter_new cfg en clk ts ss ls = Inr w0 \<and> this_projectId w0 = NO_PROJECT_ID_TOKEN \<and>
    (\<forall>e \<in> set es. rejects e) \<and> run es w0 = Some w \<longrightarrow>
      buffer w = [] \<and> requests w = [] \<and> (\<forall>c. (c, None) \<notin> set (cbCalls w)))"
proof -
  have 1: "\<not> exited v \<and> i < length (promises v) \<and>
    promises v ! i = (SuperGetProjectId, InitializeThen c) \<longrightarrow>
      step (ProjectIdSettles i (Inl err)) v =
        Some (v\<lparr>promises := remove_nth i (promises v),
                logs := logs v @
                  [(Error,
                    [Str ''TraceWriter#initialize: Unable to acquire the project number'',
                     Str ''automatically from the GCP metadata service. Please provide a'',
                     Str ''valid project ID as environmental variable GCLOUD_PROJECT, or as'',
                     Str (''config.projectId passed to start. Original error: '' @ err)])],
                cbCalls := cbCalls v @ [(c, Some err)]\<rparr>)"
    by (simp add: step_def settle_def rejected_def initialize_rejected_def logger_def Let_def)
  have 2: "TraceWriter_new cfg en clk ts ss ls = Inr w0 \<and>
    this_projectId w0 = NO_PROJECT_ID_TOKEN \<and>
    (\<forall>e \<in> set es. rejects e) \<and> run es w0 = Some w \<longrightarrow>
      buffer w = [] \<and> requests w = [] \<and> (\<forall>c. (c, None) \<notin> set (cbCalls w))"
  proof (intro impI, elim conjE)
    assume a: "TraceWriter_new cfg en clk ts ss ls = Inr w0"
      "this_projectId w0 = NO_PROJECT_ID_TOKEN" "\<forall>e \<in> set es. rejects e" "run es w0 = Some w"
    have "unresolved w \<and> counting w"
      using run_unresolved [OF new_unresolved [OF a(1,2)] a(3,4)] .
    then show "buffer w = [] \<and> requests w = [] \<and> (\<forall>c. (c, None) \<notin> set (cbCalls w))"
      by (simp add: unresolved_def counting_def)
  qed
  from 1 2 show ?thesis by (rule conjI)
qed

theorem identity_resolution_fails_witness:
  "TraceWriter_new demo_config demo_env demo_clk demo_traceObj demo_spanObj demo_labelObj =
     Inr demo_new \<and>
   this_projectId demo_new = NO_PROJECT_ID_TOKEN \<and>
   rejects Initialize \<and> rejects (WriteSpan 0) \<and>
   run [Initialize, WriteSpan 0] demo_new = Some (writeSpan 0 (initialize demo_new)) \<and>
   buffer (writeSpan 0 (initialize demo_new)) = [] \<and>
   requests (writeSpan 0 (initialize demo_new)) = [] \<and>
   \<not> exited (writeSpan 0 (initialize demo_new)) \<and>
   0 < length (promises (writeSpan 0 (initialize demo_new))) \<and>
   promises (writeSpan 0 (initialize demo_new)) ! 0 = (SuperGetProjectId, InitializeThen 0) \<and>
   (\<exists>w'. step (ProjectIdSettles 0 (Inl ''unreachable'')) (writeSpan 0 (initialize demo_new)) =
            Some w' \<and>
         cbCalls w' = cbCalls (writeSpan 0 (initialize demo_new)) @ [(0, Some ''unreachable'')] \<and>
         buffer w' = buffer (writeSpan 0 (initialize demo_new)))"
proof -
  let ?w = "writeSpan 0 (initialize demo_new)"
  have n: "TraceWriter_new demo_config demo_env demo_clk demo_traceObj demo_spanObj
             demo_labelObj = Inr demo_new"
    by (rule demo_new_constructed)
  have p: "this_projectId demo_new = NO_PROJECT_ID_TOKEN" by code_simp
  have r: "\<forall>e \<in> set [Initialize, WriteSpan 0]. rejects e" by simp
  have e: "\<not> exited demo_new" by code_simp
  have run: "run [Initialize, WriteSpan 0] demo_new = Some ?w"
    using e by (simp add: step_def)
  have x: "\<not> exited ?w" using e by simp
  have l: "0 < length (promises ?w)" by code_simp
  have i: "promises ?w ! 0 = (SuperGetProjectId, InitializeThen 0)" by code_simp
  note fails = identity_resolution_fails
    [where v = ?w and i = 0 and c = 0 and err = "''unreachable''" and cfg = demo_config
       and en = demo_env and clk = demo_clk and ts = demo_traceObj and ss = demo_spanObj
       and ls = demo_labelObj and ?w0.0 = demo_new and es = "[Initialize, WriteSpan 0]"
       and w = ?w]
  from fails n p r run have b: "buffer ?w = []" and q: "requests ?w = []" by blast+
  from fails x l i
  have "step (ProjectIdSettles 0 (Inl ''unreachable'')) ?w =
        Some (?w\<lparr>promises := remove_nth 0 (promises ?w),
                logs := logs ?w @
                  [(Error,
                    [Str ''TraceWriter#initialize: Unable to acquire the project number'',
                     Str ''automatically from the GCP metadata service. Please provide a'',
                     Str ''valid project ID as environmental variable GCLOUD_PROJECT, or as'',
                     Str (''config.projectId passed to start. Original error: '' @
                          ''unreachable'')])],
                cbCalls := cbCalls ?w @ [(0, Some ''unreachable'')]\<rparr>)"
    by blast
  then have cb: "\<exists>w'. step (ProjectIdSettles 0 (Inl ''unreachable'')) ?w = Some w' \<and>
         cbCalls w' = cbCalls ?w @ [(0, Some ''unreachable'')] \<and> buffer w' = buffer ?w"
    by simp
  from n p run b q x l i cb show ?thesis by simp
qed

section \<open>Dropped traces and their log entries\<close>

text \<open>
  Claim C7 says that when the project id cannot be resolved the deferred traces are dropped
  with one informational log entry in total, not one for each trace. In the code every
  deferred \<^verbatim>\<open>queueTrace\<close> gives its own rejection handler to \<^verbatim>\<open>then\<close>, and each handler
  logs. Two traces written before the resolution fails leave two entries.
\<close>

theorem one_drop_entry_counterexample:
  "map_option logs
     (run [WriteSpan 0, WriteSpan 1, ProjectIdSettles 0 (Inl ''unreachable''),
           ProjectIdSettles 0 (Inl ''unreachable'')] demo_new) =
   Some [(Info, [Str ''TraceWriter#queueTrace: No project ID, dropping trace.'']),
         (Info, [Str ''TraceWriter#queueTrace: No project ID, dropping trace.''])]"
  by code_simp

text \<open>
  Claim C7 as amended: when the resolution that a deferred trace waits for fails, that
  trace is dropped (its reaction is gone and nothing else of the writer changes, the
  buffer included) and exactly one informational entry is logged for it: one entry for
  each dropped trace.
\<close>

theorem dropped_trace_logged:
  assumes "\<not> exited w" and "i < length (promises w)"
    and "promises w ! i = (SuperGetProjectId, QueueTraceThen trace)"
  shows "step (ProjectIdSettles i (Inl err)) w =
           Some (w\<lparr>promises := remove_nth i (promises w),
                   logs := logs w @
                     [(Info, [Str ''TraceWriter#queueTrace: No project ID, dropping trace.''])]\<rparr>)"
  using assms
  by (simp add: step_def settle_def rejected_def queueTrace_rejected_def logger_def Let_def)

theorem dropped_trace_logged_witness:
  "\<not> exited demo_deferred \<and> 0 < length (promises demo_deferred) \<and>
   promises demo_deferred ! 0 = (SuperGetProjectId, QueueTraceThen 0) \<and>
   step (ProjectIdSettles 0 (Inl ''unreachable'')) demo_deferred =
     Some (demo_deferred\<lparr>promises := remove_nth 0 (promises demo_deferred),
             logs := logs demo_deferred @
               [(Info, [Str ''TraceWriter#queueTrace: No project ID, dropping trace.''])]\<rparr>)"
proof -
  have e: "\<not> exited demo_deferred" by code_simp
  have l: "0 < length (promises demo_deferred)" by code_simp
  have p: "promises demo_deferred ! 0 = (SuperGetProjectId, QueueTraceThen 0)" by code_simp
  from dropped_trace_logged [OF e l p, of "''unreachable''"] e l p show ?thesis by blast
qed

section \<open>A rejected publish call\<close>

text \<open>
  Claim C8: when the transport rejects a publish call, the callback of the request logs
  exactly one entry, at error level and about \<^verbatim>\<open>TraceWriter#publish\<close>; nothing else of
  the writer changes: the buffer does not get the batch back, no further request is made
  and no callback is armed. The callback returns normally.
\<close>

theorem publish_failure_logged_once:
  assumes "\<not> exited w" and "0 < inflight w"
  shows "\<exists>w'. step (RequestDone (Some err) response) w = Some w' \<and>
           w' = w\<lparr>inflight := inflight w - 1,
                  logs := logs w @
                    [(Error,
                      [Str (''TraceWriter#publish: Received error status code '' @
                            (case response of
                               Some c \<Rightarrow> if c = 0 then ''unknown'' else show_int c
                             | None \<Rightarrow> ''unknown'') @
                            ''. Original error: '' @ err)])]\<rparr> \<and>
           publish_errors (logs w') = Suc (publish_errors (logs w)) \<and>
           length (logs w') = Suc (length (logs w)) \<and>
           buffer w' = buffer w \<and> requests w' = requests w \<and>
           immediates w' = immediates w \<and> timers w' = timers w \<and> promises w' = promises w"
  using assms
  by (simp add: step_def publish_callback_def logger_def publish_errors_def Let_def
      split: option.splits)

theorem publish_failure_logged_once_witness:
  "\<not> exited demo_published \<and> 0 < inflight demo_published \<and>
   (\<exists>w'. step (RequestDone (Some ''Error: ECONNRESET'') None) demo_published = Some w' \<and>
      publish_errors (logs w') = Suc (publish_errors (logs demo_published)) \<and>
      length (logs w') = Suc (length (logs demo_published)) \<and>
      buffer w' = buffer demo_published \<and> requests w' = requests demo_published)"
proof -
  have e: "\<not> exited demo_published" by code_simp
  have i: "0 < inflight demo_published" by code_simp
  from publish_failure_logged_once [OF e i, of "''Error: ECONNRESET''" None] e i
  show ?thesis by blast
qed

section \<open>Buffer entries are snapshots\<close>

text \<open>
  Claim C9 says that a trace is serialised at enqueue time, so that mutating it after
  \<^verbatim>\<open>writeSpan\<close> has returned does not change what a later flush publishes. That holds
  only when the enqueue is inside \<^verbatim>\<open>writeSpan\<close>. While the writer does not know its
  project id, \<^verbatim>\<open>writeSpan\<close> returns with the enqueue deferred, and the trace is
  serialised when the resolution completes: a new \<^verbatim>\<open>traceId\<close> written in between is
  in the published payload. The two runs below differ only by that mutation, and publish
  different bodies.
\<close>

theorem mutation_before_enqueue_counterexample:
  "map_option (\<lambda>w. map body (requests w))
     (run [WriteSpan 0, demo_mutation, ProjectIdSettles 0 (Inr ''my-project''), WriteSpan 1,
           ImmediateFires] demo_new) \<noteq>
   map_option (\<lambda>w. map body (requests w))
     (run [WriteSpan 0, ProjectIdSettles 0 (Inr ''my-project''), WriteSpan 1,
           ImmediateFires] demo_new)"
  by code_simp

text \<open>
  Claim C9 as amended: the buffer entry of a trace is its serialisation at enqueue time,
  which is inside \<^verbatim>\<open>writeSpan\<close> when the writer knows its project id and when
  \<^verbatim>\<open>afterProjectId\<close> runs otherwise. Whatever the caller's objects are changed to
  after the enqueue, the buffer is the same and a flush publishes that serialisation:
  every step of the writer leaves the buffer as it is, or appends one entry to it, or
  empties it with one request whose body is made of the entries as they were.
\<close>

theorem enqueue_takes_snapshot:
  "(this_projectId w \<noteq> NO_PROJECT_ID_TOKEN \<longrightarrow>
      buffer ((writeSpan trace w)\<lparr>traceObj := ts, spanObj := ss, labelObj := ls\<rparr>) =
        buffer w @ [JSON_stringify (writeSpan trace w) trace] \<and>
      map body (requests (flushBuffer
          ((writeSpan trace w)\<lparr>traceObj := ts, spanObj := ss, labelObj := ls\<rparr>))) =
        map body (requests w) @
        [''{'' @ [CHR 0x22] @ ''traces'' @ [CHR 0x22] @ '':['' @
         Array_join (buffer w @ [JSON_stringify (writeSpan trace w) trace]) @ '']}'']) \<and>
   buffer ((afterProjectId trace pid w)\<lparr>traceObj := ts, spanObj := ss, labelObj := ls\<rparr>) =
     buffer w @ [JSON_stringify (afterProjectId trace pid w) trace] \<and>
   map body (requests (flushBuffer
       ((afterProjectId trace pid w)\<lparr>traceObj := ts, spanObj := ss, labelObj := ls\<rparr>))) =
     map body (requests w) @
     [''{'' @ [CHR 0x22] @ ''traces'' @ [CHR 0x22] @ '':['' @
      Array_join (buffer w @ [JSON_stringify (afterProjectId trace pid w) trace]) @ '']}''] \<and>
   (step e v = Some v' \<longrightarrow>
      (buffer v' = buffer v \<and> requests v' = requests v) \<or>
      (\<exists>x. buffer v' = buffer v @ [x] \<and> requests v' = requests v) \<or>
      (buffer v \<noteq> [] \<and> buffer v' = [] \<and>
       map body (requests v') =
         map body (requests v) @
         [''{'' @ [CHR 0x22] @ ''traces'' @ [CHR 0x22] @ '':['' @
          Array_join (buffer v) @ '']}'']))"
proof -
  have "step e v = Some v' \<longrightarrow>
      (buffer v' = buffer v \<and> requests v' = requests v) \<or>
      (\<exists>x. buffer v' = buffer v @ [x] \<and> requests v' = requests v) \<or>
      (buffer v \<noteq> [] \<and> buffer v' = [] \<and>
       map body (requests v') =
         map body (requests v) @
         [''{'' @ [CHR 0x22] @ ''traces'' @ [CHR 0x22] @ '':['' @
          Array_join (buffer v) @ '']}''])"
    using step_buffer [of e v v'] by (simp add: flushBuffer_payload_def)
  then show ?thesis
    by (simp add: writeSpan_buffer_resolved afterProjectId_buffer
        flushBuffer_def flushBuffer_payload_def publish_def logger_def Let_def)
qed

theorem enqueue_takes_snapshot_witness:
  "this_projectId demo_active \<noteq> NO_PROJECT_ID_TOKEN \<and>
   buffer ((writeSpan 1 demo_active)
             \<lparr>traceObj := demo_traceObj, spanObj := demo_spanObj, labelObj := demo_labelObj\<rparr>) =
     buffer demo_active @ [JSON_stringify (writeSpan 1 demo_active) 1] \<and>
   map body (requests (flushBuffer
       ((writeSpan 1 demo_active)
          \<lparr>traceObj := demo_traceObj, spanObj := demo_spanObj, labelObj := demo_labelObj\<rparr>))) =
     map body (requests demo_active) @
     [''{'' @ [CHR 0x22] @ ''traces'' @ [CHR 0x22] @ '':['' @
      Array_join (buffer demo_active @ [JSON_stringify (writeSpan 1 demo_active) 1]) @ '']}''] \<and>
   step ImmediateFires demo_full =
     Some (flushBuffer (demo_full\<lparr>immediates := immediates demo_full - 1\<rparr>)) \<and>
   buffer demo_full \<noteq> [] \<and>
   map body (requests (flushBuffer (demo_full\<lparr>immediates := immediates demo_full - 1\<rparr>))) =
     map body (requests demo_full) @
     [''{'' @ [CHR 0x22] @ ''traces'' @ [CHR 0x22] @ '':['' @
      Array_join (buffer demo_full) @ '']}'']"
proof -
  let ?v' = "flushBuffer (demo_full\<lparr>immediates := immediates demo_full - 1\<rparr>)"
  have r: "this_projectId demo_active \<noteq> NO_PROJECT_ID_TOKEN" by code_simp
  have x: "\<not> exited demo_full" by code_simp
  have i: "0 < immediates demo_full" by code_simp
  have n: "buffer demo_full \<noteq> []" by code_simp
  have s: "step ImmediateFires demo_full = Some ?v'" using x i by (simp add: step_def)
  have b: "buffer ?v' = []" using n by (simp add: flushBuffer_def publish_def logger_def Let_def)
  note snap = enqueue_takes_snapshot
         [where w = demo_active and trace = 1 and ts = demo_traceObj and ss = demo_spanObj
            and ls = demo_labelObj and pid = "''my-project''" and e = ImmediateFires
            and v = demo_full and v' = ?v']
  from snap r
  have 1: "buffer ((writeSpan 1 demo_active)
             \<lparr>traceObj := demo_traceObj, spanObj := demo_spanObj, labelObj := demo_labelObj\<rparr>) =
       buffer demo_active @ [JSON_stringify (writeSpan 1 demo_active) 1] \<and>
     map body (requests (flushBuffer
       ((writeSpan 1 demo_active)
          \<lparr>traceObj := demo_traceObj, spanObj := demo_spanObj, labelObj := demo_labelObj\<rparr>))) =
       map body (requests demo_active) @
       [''{'' @ [CHR 0x22] @ ''traces'' @ [CHR 0x22] @ '':['' @
        Array_join (buffer demo_active @ [JSON_stringify (writeSpan 1 demo_active) 1]) @ '']}'']"
    by blast
  from snap s
  have "(buffer ?v' = buffer demo_full \<and> requests ?v' = requests demo_full) \<or>
      (\<exists>x. buffer ?v' = buffer demo_full @ [x] \<and> requests ?v' = requests demo_full) \<or>
      (buffer demo_full \<noteq> [] \<and> buffer ?v' = [] \<and>
       map body (requests ?v') =
         map body (requests demo_full) @
         [''{'' @ [CHR 0x22] @ ''traces'' @ [CHR 0x22] @ '':['' @
          Array_join (buffer demo_full) @ '']}''])"
    by blast
  with n b
  have 2: "map body (requests ?v') =
         map body (requests demo_full) @
         [''{'' @ [CHR 0x22] @ ''traces'' @ [CHR 0x22] @ '':['' @
          Array_join (buffer demo_full) @ '']}'']"
    by auto
  from r 1 s n 2 show ?thesis by blast
qed

section \<open>writeSpan works on the caller's objects\<close>

text \<open>
  Claim C10: \<^verbatim>\<open>writeSpan\<close> mutates its argument in place. After the call, in the
  caller's own objects, a span of the trace whose end time was the empty string has a
  reading of the clock taken during the call as its end time and is otherwise as before,
  a span with an end time is untouched, and the label object of a span of kind RPC_SERVER
  holds the default labels merged over its entries. The field \<^verbatim>\<open>projectId\<close> of the
  trace is overwritten when the trace is enqueued: inside \<^verbatim>\<open>writeSpan\<close> when the
  writer knows its project id, and by \<^verbatim>\<open>afterProjectId\<close> otherwise, until when the
  trace object is as the caller left it.
\<close>

theorem writeSpan_in_place:
  "(\<forall>s \<in> set (spans (traceObj w trace)).
      (endTime (spanObj w s) \<noteq> [] \<longrightarrow> spanObj (writeSpan trace w) s = spanObj w s) \<and>
      (endTime (spanObj w s) = [] \<longrightarrow>
         (\<exists>n. ticks w \<le> n \<and> n < ticks (writeSpan trace w) \<and>
              spanObj (writeSpan trace w) s = (spanObj w s)\<lparr>endTime := clock w n\<rparr>)) \<and>
      (kind (spanObj w s) = RPC_SERVER \<and> distinct (map fst (defaultLabels w)) \<longrightarrow>
         map_of (labelObj (writeSpan trace w) (labels (spanObj w s))) =
         map_of (labelObj w (labels (spanObj w s))) ++ map_of (defaultLabels w))) \<and>
   (this_projectId w \<noteq> NO_PROJECT_ID_TOKEN \<longrightarrow>
      traceObj (writeSpan trace w) =
        (traceObj w)(trace := (traceObj w trace)\<lparr>projectId := this_projectId w\<rparr>)) \<and>
   (this_projectId w = NO_PROJECT_ID_TOKEN \<longrightarrow> traceObj (writeSpan trace w) = traceObj w) \<and>
   traceObj (afterProjectId trace pid w) =
     (traceObj w)(trace := (traceObj w trace)\<lparr>projectId := pid\<rparr>)"
proof -
  have ticks: "ticks (writeSpan trace w) = ticks (stampEndTimes (spans (traceObj w trace)) w)"
    by (simp add: writeSpan_def queueTrace_def Let_def)
  have a: "\<And>pid v. traceObj (afterProjectId trace pid v) =
     (traceObj v)(trace := (traceObj v trace)\<lparr>projectId := pid\<rparr>)"
    by (simp add: afterProjectId_def Let_def)
  have r: "this_projectId w \<noteq> NO_PROJECT_ID_TOKEN \<longrightarrow>
      traceObj (writeSpan trace w) =
        (traceObj w)(trace := (traceObj w trace)\<lparr>projectId := this_projectId w\<rparr>)"
    by (simp add: writeSpan_def queueTrace_def Let_def a)
  have u: "this_projectId w = NO_PROJECT_ID_TOKEN \<longrightarrow> traceObj (writeSpan trace w) = traceObj w"
    by (simp add: writeSpan_def queueTrace_def Let_def)
  show ?thesis
    using r u a [of pid w]
    by (auto simp: writeSpan_spanObj ticks stampEndTimes_closed_span
        dest: stampEndTimes_open_span writeSpan_labels)
qed

theorem writeSpan_in_place_witness:
  "1 \<in> set (spans (traceObj demo_active 1)) \<and> endTime (spanObj demo_active 1) = [] \<and>
   endTime (spanObj (writeSpan 1 demo_active) 1) = ''2018-01-01T00:00:00.000Z'' \<and>
   kind (spanObj demo_active 1) = RPC_SERVER \<and>
   distinct (map fst (defaultLabels demo_active)) \<and>
   map_of (labelObj (writeSpan 1 demo_active) (labels (spanObj demo_active 1))) =
     map_of (labelObj demo_active (labels (spanObj demo_active 1))) ++
     map_of (defaultLabels demo_active) \<and>
   this_projectId demo_active \<noteq> NO_PROJECT_ID_TOKEN \<and>
   traceObj (writeSpan 1 demo_active) =
     (traceObj demo_active)(1 := (traceObj demo_active 1)\<lparr>projectId := this_projectId demo_active\<rparr>) \<and>
   this_projectId demo_new = NO_PROJECT_ID_TOKEN \<and>
   traceObj (writeSpan 1 demo_new) = traceObj demo_new"
proof -
  have m: "1 \<in> set (spans (traceObj demo_active 1))" by code_simp
  have e: "endTime (spanObj demo_active 1) = []" by code_simp
  have k: "kind (spanObj demo_active 1) = RPC_SERVER" by code_simp
  have d: "distinct (map fst (defaultLabels demo_active))" by code_simp
  have r: "this_projectId demo_active \<noteq> NO_PROJECT_ID_TOKEN" by code_simp
  have u: "this_projectId demo_new = NO_PROJECT_ID_TOKEN" by code_simp
  note active = writeSpan_in_place [where w = demo_active and trace = 1 and pid = "''my-project''"]
  from active m e obtain n where
    "spanObj (writeSpan 1 demo_active) 1 = (spanObj demo_active 1)\<lparr>endTime := clock demo_active n\<rparr>"
    by blast
  then have t: "endTime (spanObj (writeSpan 1 demo_active) 1) = ''2018-01-01T00:00:00.000Z''"
    by (simp add: demo_clock)
  from active m k d
  have l: "map_of (labelObj (writeSpan 1 demo_active) (labels (spanObj demo_active 1))) =
     map_of (labelObj demo_active (labels (spanObj demo_active 1))) ++
     map_of (defaultLabels demo_active)"
    by blast
  from active r
  have p: "traceObj (writeSpan 1 demo_active) =
     (traceObj demo_active)(1 := (traceObj demo_active 1)\<lparr>projectId := this_projectId demo_active\<rparr>)"
    by blast
  from writeSpan_in_place [where w = demo_new and trace = 1 and pid = "''my-project''"] u
  have q: "traceObj (writeSpan 1 demo_new) = traceObj demo_new" by blast
  from m e t k d l r p u q show ?thesis by blast
qed

end
